theory Spec2Isabelle
  imports Main "HOL-Library.Multiset" "HOL-Library.Log_Nat"
begin

section \<open>Python primitives used by the service\<close>

text \<open>
  A Python \<open>str\<close> is modelled as a \<open>string\<close> whose characters are the code points
  below 256 (ASCII and the Latin-1 supplement); \<open>length\<close> counts code points, as
  \<open>len\<close> does.  Every keyword, template and stop word of the service is ASCII.
\<close>

definition py_lower_char :: "char \<Rightarrow> char" where
  "py_lower_char c =
     (let n = (of_char c :: nat) in
      if (65 \<le> n \<and> n \<le> 90) \<or> (192 \<le> n \<and> n \<le> 222 \<and> n \<noteq> 215)
      then char_of (n + 32) else c)"

definition py_lower :: "string \<Rightarrow> string" where
  "py_lower s = map py_lower_char s"

text \<open>
  \<open>str.upper\<close> on one character.  The three lower-case letters of Latin-1 whose
  upper-case form lies outside Latin-1 (code points 181, 223 and 255) are left unchanged
  here; the service only upper-cases ASCII letters.
\<close>

definition py_upper_char :: "char \<Rightarrow> char" where
  "py_upper_char c =
     (let n = (of_char c :: nat) in
      if (97 \<le> n \<and> n \<le> 122) \<or> (224 \<le> n \<and> n \<le> 254 \<and> n \<noteq> 247)
      then char_of (n - 32) else c)"

text \<open>\<open>s.capitalize()\<close>: first character upper-cased, the rest lower-cased.\<close>

definition py_capitalize :: "string \<Rightarrow> string" where
  "py_capitalize s = (case s of [] \<Rightarrow> [] | c # cs \<Rightarrow> py_upper_char c # py_lower cs)"

text \<open>\<open>s.startswith(p)\<close> and the substring test \<open>k in s\<close>.\<close>

fun starts_with :: "string \<Rightarrow> string \<Rightarrow> bool" where
  "starts_with [] s = True"
| "starts_with (p # ps) [] = False"
| "starts_with (p # ps) (c # cs) = (p = c \<and> starts_with ps cs)"

fun substring_in :: "string \<Rightarrow> string \<Rightarrow> bool" where
  "substring_in k [] = (k = [])"
| "substring_in k (c # cs) = (starts_with k (c # cs) \<or> substring_in k cs)"

text \<open>
  A slice \<open>xs[:k]\<close>: a negative \<open>k\<close> counts from the end.
\<close>

definition py_slice_to :: "int \<Rightarrow> 'a list \<Rightarrow> 'a list" where
  "py_slice_to k xs =
     (if k < 0 then take (length xs - nat (- k)) xs else take (nat k) xs)"

text \<open>\<open>range(n)\<close> is empty for a negative \<open>n\<close>.\<close>

definition py_range :: "int \<Rightarrow> nat list" where
  "py_range n = [0..<nat n]"

text \<open>\<open>s.replace(' ', '-')\<close>, used to build the tag slugs.\<close>

definition slug :: "string \<Rightarrow> string" where
  "slug s = map (\<lambda>c. if c = CHR '' '' then CHR ''-'' else c) (py_lower s)"

section \<open>Topic classifier\<close>

text \<open>
  The dictionary of \<open>categorize_topic\<close>, as the list of its items in insertion order
  (the order a Python \<open>dict\<close> iterates in).
\<close>

definition categories :: "(string \<times> string list) list" where
  "categories =
    [(''technology'', [''programming'', ''software'', ''computer'', ''ai'', ''machine learning'',
                       ''data science'', ''web'', ''mobile'', ''cloud'', ''cybersecurity'']),
     (''science'', [''biology'', ''chemistry'', ''physics'', ''astronomy'', ''geology'',
                    ''environmental'', ''medical'', ''neuroscience'']),
     (''history'', [''historical'', ''war'', ''civilization'', ''ancient'', ''medieval'',
                    ''modern'', ''political'', ''cultural'']),
     (''mathematics'', [''math'', ''algebra'', ''calculus'', ''statistics'', ''geometry'']),
     (''business'', [''marketing'', ''finance'', ''management'', ''economics'',
                     ''entrepreneurship''])]"

definition category_matches :: "string \<Rightarrow> string \<times> string list \<Rightarrow> bool" where
  "category_matches topic_lower item = list_ex (\<lambda>keyword. substring_in keyword topic_lower) (snd item)"

definition categorize_topic :: "string \<Rightarrow> string" where
  "categorize_topic topic =
     (let topic_lower = py_lower topic in
      case find (category_matches topic_lower) categories of
        Some item \<Rightarrow> py_capitalize (fst item)
      | None \<Rightarrow> ''General'')"

section \<open>Aspect generator\<close>

definition general_templates :: "string list" where
  "general_templates =
    [''basics'', ''advanced concepts'', ''practical applications'', ''common mistakes'',
     ''best practices'', ''tools'', ''resources'', ''career aspects'', ''future trends'']"

definition aspect_templates :: "(string \<times> string list) list" where
  "aspect_templates =
    [(''technology'', [''fundamentals'', ''applications'', ''architecture'', ''security'',
                       ''performance'', ''implementation'', ''best practices'', ''trends'',
                       ''tools'', ''methodologies'']),
     (''science'', [''principles'', ''theories'', ''experiments'', ''discoveries'',
                    ''applications'', ''methodologies'', ''impact'', ''research'', ''concepts'',
                    ''phenomena'']),
     (''history'', [''events'', ''figures'', ''periods'', ''causes'', ''consequences'', ''themes'',
                    ''movements'', ''cultures'', ''developments'', ''interpretations'']),
     (''general'', general_templates)]"

text \<open>
  \<open>aspect_templates.get(category, aspect_templates['general'])\<close>.  Every list of the
  table has nine or ten fragments, so the index \<open>i % len(templates)\<close> below is in range.
\<close>

definition templates_for :: "string \<Rightarrow> string list" where
  "templates_for topic =
     (case map_of aspect_templates (py_lower (categorize_topic topic)) of
        Some ts \<Rightarrow> ts
      | None \<Rightarrow> general_templates)"

definition generate_aspects_from_topic :: "string \<Rightarrow> int \<Rightarrow> string list" where
  "generate_aspects_from_topic topic num_aspects =
     (let templates = templates_for topic;
          aspects = map (\<lambda>i. templates ! (i mod length templates) @ '' of '' @ topic)
                        (py_range num_aspects)
      in py_slice_to num_aspects aspects)"

section \<open>Dictionaries, sorting and regular-expression scans\<close>

text \<open>
  A Python \<open>dict\<close> is an association list in insertion order: storing under a key that
  is present replaces the value where it stands, a new key goes to the end.
\<close>

fun dict_set :: "'k \<Rightarrow> 'v \<Rightarrow> ('k \<times> 'v) list \<Rightarrow> ('k \<times> 'v) list" where
  "dict_set k v [] = [(k, v)]"
| "dict_set k v (kv # kvs) = (if fst kv = k then (k, v) # kvs else kv # dict_set k v kvs)"

definition dict_get :: "('k \<times> 'v) list \<Rightarrow> 'k \<Rightarrow> 'v \<Rightarrow> 'v" where
  "dict_get d k dflt = (case map_of d k of Some v \<Rightarrow> v | None \<Rightarrow> dflt)"

text \<open>\<open>word_counts[word] = word_counts.get(word, 0) + 1\<close>.\<close>

definition count_word :: "string \<Rightarrow> (string \<times> nat) list \<Rightarrow> (string \<times> nat) list" where
  "count_word word word_counts = dict_set word (dict_get word_counts word 0 + 1) word_counts"

text \<open>
  The counting loop shared by the two keyword extractors: words of the stop list are
  skipped.
\<close>

definition count_words :: "string list \<Rightarrow> string list \<Rightarrow> (string \<times> nat) list" where
  "count_words common_words words =
     fold (\<lambda>word word_counts.
             if word \<in> set common_words then word_counts else count_word word word_counts)
          words []"

text \<open>
  \<open>sorted(items, key=lambda x: x[1], reverse=True)\<close>.  CPython sorts with
  \<open>reverse=True\<close> by reversing the list, sorting it stably, and reversing the result, so
  that items with equal keys keep their order; \<open>sort_key\<close> is a stable insertion sort.
\<close>

definition sorted_by_count_reverse :: "(string \<times> nat) list \<Rightarrow> (string \<times> nat) list" where
  "sorted_by_count_reverse items = rev (sort_key snd (rev items))"

text \<open>
  Character classes.  \<open>is_word_char\<close> is the class \<open>\w\<close> of a \<open>str\<close> pattern (letters,
  digits and numeric characters of Unicode, and the underscore), \<open>is_space\<close> is
  \<open>str.isspace\<close>, both on the code points below 256.
\<close>

definition is_ascii_upper :: "char \<Rightarrow> bool" where
  "is_ascii_upper c = (let n = (of_char c :: nat) in 65 \<le> n \<and> n \<le> 90)"

definition is_ascii_lower :: "char \<Rightarrow> bool" where
  "is_ascii_lower c = (let n = (of_char c :: nat) in 97 \<le> n \<and> n \<le> 122)"

definition is_ascii_letter :: "char \<Rightarrow> bool" where
  "is_ascii_letter c = (is_ascii_upper c \<or> is_ascii_lower c)"

definition is_word_char :: "char \<Rightarrow> bool" where
  "is_word_char c =
     (let n = (of_char c :: nat) in
      (48 \<le> n \<and> n \<le> 57) \<or> (65 \<le> n \<and> n \<le> 90) \<or> n = 95 \<or> (97 \<le> n \<and> n \<le> 122) \<or>
      n = 170 \<or> n = 178 \<or> n = 179 \<or> n = 181 \<or> n = 185 \<or> n = 186 \<or>
      n = 188 \<or> n = 189 \<or> n = 190 \<or> (192 \<le> n \<and> n \<noteq> 215 \<and> n \<noteq> 247))"

definition is_space :: "char \<Rightarrow> bool" where
  "is_space c =
     (let n = (of_char c :: nat) in
      (9 \<le> n \<and> n \<le> 13) \<or> (28 \<le> n \<and> n \<le> 32) \<or> n = 133 \<or> n = 160)"

text \<open>\<open>c.isupper()\<close> for one character.\<close>

definition py_isupper :: "char \<Rightarrow> bool" where
  "py_isupper c =
     (let n = (of_char c :: nat) in
      (65 \<le> n \<and> n \<le> 90) \<or> (192 \<le> n \<and> n \<le> 222 \<and> n \<noteq> 215))"

text \<open>
  The maximal runs of characters of a class, left to right; \<open>cur\<close> holds the run being
  read, reversed.
\<close>

fun runs :: "(char \<Rightarrow> bool) \<Rightarrow> string \<Rightarrow> string \<Rightarrow> string list" where
  "runs P cur [] = (if cur = [] then [] else [rev cur])"
| "runs P cur (c # cs) =
     (if P c then runs P (c # cur) cs
      else if cur = [] then runs P [] cs
      else rev cur # runs P [] cs)"

text \<open>\<open>s.split()\<close>: the maximal runs of characters that are not white space.\<close>

definition py_split :: "string \<Rightarrow> string list" where
  "py_split s = runs (\<lambda>c. \<not> is_space c) [] s"

text \<open>
  \<open>re.findall(r'\b[A-Z][a-z]{3,}\b', text)\<close>.  The pattern starts and ends at a word
  boundary and matches word characters only, so a match is a whole maximal run of word
  characters: where the run goes on after the last lower-case letter, or started before
  the capital, no boundary is there, and giving back letters does not reach one.  The
  matches are the runs of the shape capital, then three or more lower-case letters.
\<close>

definition is_capitalized_word :: "string \<Rightarrow> bool" where
  "is_capitalized_word w =
     (case w of [] \<Rightarrow> False
      | c # cs \<Rightarrow> is_ascii_upper c \<and> 3 \<le> length cs \<and> list_all is_ascii_lower cs)"

definition findall_capitalized :: "string \<Rightarrow> string list" where
  "findall_capitalized text = filter is_capitalized_word (runs is_word_char [] text)"

text \<open>\<open>re.findall(r'\b[a-zA-Z]{4,}\b', text)\<close>, by the same argument.\<close>

definition findall_letters4 :: "string \<Rightarrow> string list" where
  "findall_letters4 text =
     filter (\<lambda>w. 4 \<le> length w \<and> list_all is_ascii_letter w) (runs is_word_char [] text)"

text \<open>
  \<open>re.split(r'[.!?]+', text)\<close>: the pieces between the maximal runs of sentence marks,
  the empty pieces at both ends included.  \<open>in_sep\<close> says that the last character read
  was a sentence mark.
\<close>

definition is_sentence_mark :: "char \<Rightarrow> bool" where
  "is_sentence_mark c = (c = CHR ''.'' \<or> c = CHR ''!'' \<or> c = CHR ''?'')"

fun re_split_marks :: "bool \<Rightarrow> string \<Rightarrow> string \<Rightarrow> string list" where
  "re_split_marks in_sep cur [] = [rev cur]"
| "re_split_marks in_sep cur (c # cs) =
     (if is_sentence_mark c
      then (if in_sep then re_split_marks True cur cs
            else rev cur # re_split_marks True [] cs)
      else re_split_marks False (c # cur) cs)"

definition split_sentences :: "string \<Rightarrow> string list" where
  "split_sentences text = re_split_marks False [] text"

section \<open>Binary64 arithmetic\<close>

text \<open>
  A finite Python \<open>float\<close> is represented by its exact value, a rational number.
  \<open>round_double\<close> rounds a rational to the nearest binary64 value, ties to the even
  significand; results of magnitude \<open>2 ^ 1024\<close> or more stand for an overflow.
\<close>

datatype py_error = OverflowError

definition pow2 :: "int \<Rightarrow> rat" where
  "pow2 e = (if 0 \<le> e then 2 ^ nat e else 1 / 2 ^ nat (- e))"

definition round_half_even :: "rat \<Rightarrow> int" where
  "round_half_even x =
     (let f = \<lfloor>x\<rfloor>; d = x - of_int f in
      if d < 1 / 2 then f else if 1 / 2 < d then f + 1 else if even f then f else f + 1)"

text \<open>For a positive \<open>x\<close>, the \<open>e\<close> with \<open>2 ^ e \<le> x < 2 ^ (e + 1)\<close>.\<close>

definition floor_log2 :: "rat \<Rightarrow> int" where
  "floor_log2 x =
     (let (a, b) = quotient_of x; e = bitlen a - bitlen b in
      if x < pow2 e then e - 1 else e)"

definition round_double :: "rat \<Rightarrow> rat" where
  "round_double x =
     (if x = 0 then 0
      else let e = max (floor_log2 \<bar>x\<bar>) (- 1022); ulp = pow2 (e - 52) in
           of_int (round_half_even (x / ulp)) * ulp)"

text \<open>
  \<open>int\<close> to \<open>float\<close>, as the multiplication \<open>num_questions * 0.8\<close> converts its left
  operand: correctly rounded, and an \<open>OverflowError\<close> for an integer that rounds to
  \<open>2 ^ 1024\<close>, which are those of magnitude \<open>2 ^ 1024 - 2 ^ 970\<close> or more.
\<close>

definition int_to_float :: "int \<Rightarrow> py_error + rat" where
  "int_to_float n =
     (if 2 ^ 1024 - 2 ^ 970 \<le> \<bar>n\<bar> then Inl OverflowError else Inr (round_double (of_int n)))"

definition float_mul :: "rat \<Rightarrow> rat \<Rightarrow> rat" where
  "float_mul x y = round_double (x * y)"

text \<open>True division of two integers, \<open>a / b\<close> with \<open>b \<noteq> 0\<close>: the quotient, correctly rounded.\<close>

definition int_true_div :: "int \<Rightarrow> int \<Rightarrow> rat" where
  "int_true_div a b = round_double (of_int a / of_int b)"

text \<open>
  \<open>round(x, 2)\<close> on a float: the exact value of \<open>x\<close> is rounded to two decimals, ties to
  even, and the decimal result is read back as a float.
\<close>

definition py_round2 :: "rat \<Rightarrow> rat" where
  "py_round2 x = round_double (of_int (round_half_even (x * 100)) / 100)"

text \<open>A decimal literal denotes the nearest float: \<open>0.8\<close> and \<open>2.4\<close>.\<close>

definition float_literal :: "int \<Rightarrow> int \<Rightarrow> rat" where
  "float_literal num den = round_double (of_int num / of_int den)"

section \<open>Data model\<close>

text \<open>
  Questions and quizzes are Python dictionaries that also arrive from outside (the
  enhancement endpoint), so every key may be absent: a field is \<open>None\<close> when its key is
  absent, and a key that is present holds a value of the field's type.  Keys the service
  never reads are not modelled.  The fields carry the dictionary keys, prefixed with
  \<open>question_\<close> and \<open>quiz_\<close> (the key \<open>question\<close> of a question is \<open>question_text\<close>).
\<close>

datatype json = JStr string | JBool bool | JInt int | JStrs "string list"

record question =
  question_text :: "string option"
  question_type :: "string option"
  question_options :: "string list option"
  question_correctAnswer :: "int option"
  question_explanation :: "string option"
  question_points :: "int option"
  question_timeLimit :: "int option"
  question_difficulty :: "string option"
  question_category :: "string option"
  question_tags :: "string list option"
  question_educationalTip :: "string option"

record quiz =
  quiz_title :: "string option"
  quiz_description :: "string option"
  quiz_category :: "string option"
  quiz_difficulty :: "string option"
  quiz_estimatedTime :: "rat option"
  quiz_totalPoints :: "int option"
  quiz_learningObjectives :: "string list option"
  quiz_questions :: "question list option"
  quiz_tags :: "string list option"
  quiz_metadata :: "(string \<times> json) list option"

text \<open>\<open>d.get(key, default)\<close> on an optional field.\<close>

definition get_or :: "'a option \<Rightarrow> 'a \<Rightarrow> 'a" where
  "get_or field dflt = (case field of Some v \<Rightarrow> v | None \<Rightarrow> dflt)"

section \<open>Question synthesizer\<close>

definition points_map :: "(string \<times> int) list" where
  "points_map = [(''easy'', 100), (''medium'', 150), (''hard'', 200)]"

definition time_map :: "(string \<times> int) list" where
  "time_map = [(''easy'', 30), (''medium'', 45), (''hard'', 60)]"

definition question_templates :: "string \<Rightarrow> string \<Rightarrow> string list" where
  "question_templates topic aspect =
    [''What is the primary concept of '' @ topic @ '' regarding '' @ aspect @ ''?'',
     ''Which of the following best describes '' @ aspect @ '' in '' @ topic @ ''?'',
     ''What is a key characteristic of '' @ topic @ '' related to '' @ aspect @ ''?'',
     ''How does '' @ aspect @ '' function within '' @ topic @ ''?'',
     ''What is the significance of '' @ aspect @ '' in understanding '' @ topic @ ''?'']"

definition distractors_for :: "string \<Rightarrow> string \<Rightarrow> string \<Rightarrow> string list" where
  "distractors_for correct_aspect topic difficulty =
     (if difficulty = ''easy'' then
        [''A different aspect of '' @ topic,
         ''An unrelated concept to '' @ topic,
         ''A common misconception about '' @ topic,
         ''A basic principle of '' @ topic]
      else if difficulty = ''medium'' then
        [''A related but incorrect aspect of '' @ topic,
         ''A partially correct concept about '' @ topic,
         ''An advanced but irrelevant concept in '' @ topic,
         ''A historical perspective on '' @ topic]
      else
        [''A nuanced but incorrect interpretation of '' @ correct_aspect,
         ''A controversial viewpoint on '' @ topic,
         ''An advanced technical detail unrelated to '' @ correct_aspect,
         ''A theoretical concept that doesn'' @ [CHR 0x27] @ ''t apply to '' @ correct_aspect])"

text \<open>\<open>xs.index(x)\<close>: the first position of \<open>x\<close>, \<open>None\<close> where Python raises \<open>ValueError\<close>.\<close>

fun index_of :: "'a list \<Rightarrow> 'a \<Rightarrow> nat option" where
  "index_of [] x = None"
| "index_of (y # ys) x = (if y = x then Some 0 else map_option Suc (index_of ys x))"

text \<open>\<open>xs.insert(0, xs.pop(k))\<close> for a position \<open>k\<close> of the list.\<close>

definition move_to_front :: "nat \<Rightarrow> 'a list \<Rightarrow> 'a list" where
  "move_to_front k xs = xs ! k # (take k xs @ drop (Suc k) xs)"

text \<open>
  \<open>np.random.shuffle(options)\<close> permutes the list in place by numpy's global generator.
  Its outcome is the parameter \<open>shuffle\<close>, whatever list it leaves is what the code goes
  on with.  A \<open>ValueError\<close> of \<open>index\<close> is caught by the bare \<open>except\<close>, and the list is
  returned as the shuffle left it.
\<close>

definition generate_plausible_options ::
  "(string list \<Rightarrow> string list) \<Rightarrow> string \<Rightarrow> string \<Rightarrow> string \<Rightarrow> string list" where
  "generate_plausible_options shuffle correct_aspect topic difficulty =
     (let correct_option = ''The '' @ correct_aspect;
          distractors = distractors_for correct_aspect topic difficulty;
          options = shuffle (correct_option # take 3 distractors)
      in case index_of options correct_option of
           None \<Rightarrow> options
         | Some correct_index \<Rightarrow>
             if correct_index \<noteq> 0 then move_to_front correct_index options else options)"

definition explanations :: "string \<Rightarrow> string \<Rightarrow> (string \<times> string) list" where
  "explanations topic aspect =
    [(''easy'', ''This is correct because understanding '' @ aspect @ '' is fundamental to '' @ topic
        @ ''. '' @ ''It represents a basic principle that forms the foundation for more advanced concepts.''),
     (''medium'', ''The correct answer relates to '' @ aspect @ '', which is a key component of ''
        @ topic @ ''. '' @ ''This aspect is important because it connects various concepts within ''
        @ topic @ '' '' @ ''and demonstrates practical applications.''),
     (''hard'', ''This answer correctly identifies '' @ aspect @ '', which involves complex interplay ''
        @ ''within '' @ topic @ ''. Understanding this requires knowledge of underlying principles, ''
        @ ''contextual factors, and potential implications in advanced scenarios of '' @ topic @ ''.'')]"

definition create_detailed_explanation :: "string \<Rightarrow> string \<Rightarrow> string \<Rightarrow> string" where
  "create_detailed_explanation topic aspect difficulty =
     dict_get (explanations topic aspect) difficulty
       (dict_get (explanations topic aspect) ''medium'' [])"

definition tips :: "string \<Rightarrow> string \<Rightarrow> string list" where
  "tips topic aspect =
    [''To better understand '' @ aspect @ '' in '' @ topic @ '', try relating it to practical examples.'',
     ''Consider how '' @ aspect @ '' connects to other concepts within '' @ topic
        @ '' for deeper understanding.'',
     ''Research real-world applications of '' @ aspect @ '' to see how '' @ topic
        @ '' is used in practice.'',
     ''Create mind maps linking '' @ aspect @ '' to related concepts in '' @ topic @ ''.'',
     ''Discuss '' @ aspect @ '' with peers to gain different perspectives on '' @ topic @ ''.'']"

definition generate_educational_tip :: "string \<Rightarrow> string \<Rightarrow> string" where
  "generate_educational_tip topic aspect =
     tips topic aspect ! (length aspect mod length (tips topic aspect))"

definition objectives :: "string \<Rightarrow> string list" where
  "objectives topic =
    [''Understand the fundamental concepts of '' @ topic,
     ''Identify key components and their relationships within '' @ topic,
     ''Apply knowledge of '' @ topic @ '' to solve basic problems'',
     ''Analyze different aspects of '' @ topic @ '' and their implications'',
     ''Evaluate the importance and applications of '' @ topic,
     ''Synthesize information about '' @ topic @ '' to form comprehensive understanding'',
     ''Develop critical thinking skills related to '' @ topic,
     ''Recognize common misconceptions about '' @ topic]"

definition generate_learning_objectives :: "string \<Rightarrow> int \<Rightarrow> string list" where
  "generate_learning_objectives topic num_objectives =
     py_slice_to (min num_objectives (int (length (objectives topic)))) (objectives topic)"

definition get_educational_level :: "string \<Rightarrow> string" where
  "get_educational_level d =
     dict_get [(''easy'', ''Beginner/Introductory''), (''medium'', ''Intermediate''),
               (''hard'', ''Advanced/Expert'')] d ''Intermediate''"

section \<open>Quiz assembler\<close>

text \<open>
  \<open>word[0].title()\<close> of the sorted items: the words are runs of four or more lower-case
  ASCII letters, whose title case is the first letter in upper case.
\<close>

definition py_title_word :: "string \<Rightarrow> string" where
  "py_title_word w = (case w of [] \<Rightarrow> [] | c # cs \<Rightarrow> py_upper_char c # py_lower cs)"

definition keyword_stop_words :: "string list" where
  "keyword_stop_words =
    [''this'', ''that'', ''with'', ''from'', ''have'', ''were'', ''their'', ''which'', ''about'']"

definition extract_keywords_from_context :: "string \<Rightarrow> string list" where
  "extract_keywords_from_context context =
     (if context = [] then []
      else let words = findall_letters4 (py_lower context);
               word_counts = count_words keyword_stop_words words;
               sorted_words = sorted_by_count_reverse word_counts
           in map (\<lambda>word. py_title_word (fst word)) (take 10 sorted_words))"

text \<open>
  One pass of the loop of \<open>generate_enhanced_fallback_quiz\<close>, for the index \<open>i\<close>;
  \<open>shuffle\<close> is the outcome of the shuffle of this pass.
\<close>

definition fallback_question ::
  "(string list \<Rightarrow> string list) \<Rightarrow> string \<Rightarrow> string \<Rightarrow> string \<Rightarrow> string list \<Rightarrow> nat \<Rightarrow> question" where
  "fallback_question shuffle topic difficulty quiz_type aspects i =
     (let aspect = aspects ! (i mod length aspects);
          templates = question_templates topic aspect;
          qtext = templates ! (i mod length templates);
          options = generate_plausible_options shuffle aspect topic difficulty
      in \<lparr> question_text = Some qtext,
           question_type = Some quiz_type,
           question_options = Some options,
           question_correctAnswer = Some 0,
           question_explanation = Some (create_detailed_explanation topic aspect difficulty),
           question_points = Some (dict_get points_map difficulty 100),
           question_timeLimit = Some (dict_get time_map difficulty 30),
           question_difficulty = Some difficulty,
           question_category = Some (categorize_topic topic),
           question_tags = Some [slug topic, slug aspect, difficulty],
           question_educationalTip = Some (generate_educational_tip topic aspect) \<rparr>)"

text \<open>
  The assembler.  \<open>shuffle_at i\<close> is the outcome of the shuffle in the pass for index
  \<open>i\<close>.
  The only operation that can raise is the conversion of \<open>num_questions\<close> to a float in
  \<open>num_questions * 0.8\<close>.
\<close>

definition generate_enhanced_fallback_quiz ::
  "(nat \<Rightarrow> string list \<Rightarrow> string list) \<Rightarrow> string \<Rightarrow> string \<Rightarrow> int \<Rightarrow> string \<Rightarrow> string
     \<Rightarrow> py_error + quiz" where
  "generate_enhanced_fallback_quiz shuffle_at topic difficulty num_questions quiz_type context =
     (let keywords = (if context \<noteq> [] then extract_keywords_from_context context else []);
          aspects = generate_aspects_from_topic topic num_questions;
          questions = map (\<lambda>i. fallback_question (shuffle_at i) topic difficulty quiz_type aspects i)
                          (py_range num_questions)
      in case int_to_float num_questions of
           Inl err \<Rightarrow> Inl err
         | Inr n \<Rightarrow>
             Inr \<lparr> quiz_title = Some (''Comprehensive Quiz: '' @ topic),
                   quiz_description = Some (''A detailed quiz covering various aspects of '' @ topic
                     @ ''. \<newline>        This quiz is designed to test understanding at '' @ difficulty
                     @ '' level and covers \<newline>        key concepts, applications, and principles.''),
                   quiz_category = Some (categorize_topic topic),
                   quiz_difficulty = Some difficulty,
                   quiz_estimatedTime = Some (float_mul n (float_literal 8 10)),
                   quiz_totalPoints = Some (num_questions * dict_get points_map difficulty 100),
                   quiz_learningObjectives = Some (generate_learning_objectives topic num_questions),
                   quiz_questions = Some questions,
                   quiz_tags = Some ([slug topic, difficulty, ''educational'', ''comprehensive''] @ keywords),
                   quiz_metadata = Some
                     [(''educationalLevel'', JStr (get_educational_level difficulty)),
                      (''prerequisites'',
                         JStr (if difficulty = ''medium'' \<or> difficulty = ''hard''
                               then ''Basic understanding of '' @ topic else ''None'')),
                      (''targetAudience'', JStr ''Students, professionals, and lifelong learners''),
                      (''generationMethod'', JStr ''enhanced_fallback''),
                      (''keywordsUsed'', JStrs (if keywords \<noteq> [] then py_slice_to 5 keywords else []))] \<rparr>)"

section \<open>Text analyzer\<close>

record pdf_statistics =
  totalPages :: nat
  totalWords :: nat
  totalSentences :: nat
  averageWordLength :: rat
  averageSentenceLength :: rat

record content_analysis =
  content_type :: string
  complexity :: string
  technicalLevel :: string

record pdf_analysis =
  statistics :: pdf_statistics
  contentAnalysis :: content_analysis
  potentialQuizTopics :: "string list"
  keyThemes :: "string list"

definition topic_stop_words :: "string list" where
  "topic_stop_words =
    [''This'', ''That'', ''With'', ''From'', ''Have'', ''Were'', ''Their'', ''Which'', ''About'',
     ''There'']"

definition extract_potential_topics :: "string \<Rightarrow> string list" where
  "extract_potential_topics text =
     (let words = findall_capitalized text;
          word_counts = count_words topic_stop_words words;
          sorted_words = sorted_by_count_reverse word_counts
      in map fst (take 10 sorted_words))"

definition any_in :: "string list \<Rightarrow> string \<Rightarrow> bool" where
  "any_in ws text_lower = list_ex (\<lambda>word. substring_in word text_lower) ws"

definition determine_content_type :: "string \<Rightarrow> string" where
  "determine_content_type text =
     (let text_lower = py_lower text in
      if any_in [''algorithm'', ''code'', ''programming'', ''software''] text_lower
      then ''Technology/Programming''
      else if any_in [''experiment'', ''research'', ''study'', ''scientific''] text_lower
      then ''Scientific/Research''
      else if any_in [''historical'', ''century'', ''war'', ''civilization''] text_lower
      then ''Historical''
      else if any_in [''business'', ''market'', ''financial'', ''economic''] text_lower
      then ''Business/Economics''
      else ''General/Educational'')"

definition technical_terms :: "string list" where
  "technical_terms =
    [''algorithm'', ''protocol'', ''architecture'', ''framework'', ''syntax'',
     ''theorem'', ''hypothesis'', ''methodology'', ''quantitative'', ''analysis'']"

definition estimate_technical_level :: "string \<Rightarrow> string" where
  "estimate_technical_level text =
     (let found = length (filter (\<lambda>t. substring_in t (py_lower text)) technical_terms) in
      if found > 10 then ''Advanced Technical''
      else if found > 5 then ''Intermediate Technical''
      else if found > 0 then ''Basic Technical''
      else ''Non-Technical'')"

text \<open>
  The words of one sentence that \<open>extract_key_themes\<close> keeps; \<open>prev\<close> is the word before
  (\<open>None\<close> at the first word, which is never kept).  The words come from \<open>split\<close> and
  are not empty.
\<close>

fun theme_words :: "string option \<Rightarrow> string list \<Rightarrow> string list" where
  "theme_words prev [] = []"
| "theme_words prev (word # words) =
     (if py_isupper (hd word) \<and> length word > 3 \<and> prev \<noteq> None
         \<and> prev \<noteq> Some ''the'' \<and> prev \<noteq> Some ''a'' \<and> prev \<noteq> Some ''an''
      then word # theme_words (Some word) words
      else theme_words (Some word) words)"

text \<open>
  \<open>list(set(themes))\<close> lists the distinct themes in the order of the hash table, which
  changes from one process to the next: the parameter \<open>set_order\<close> is the order in which
  the distinct themes come out.
\<close>

definition extract_key_themes :: "(string list \<Rightarrow> string list) \<Rightarrow> string \<Rightarrow> string list" where
  "extract_key_themes set_order text =
     (let sentences = split_sentences text;
          themes = concat (map (\<lambda>sentence.
                      if length (py_split sentence) > 5 then theme_words None (py_split sentence)
                      else [])
                    (take 50 sentences))
      in take 10 (set_order (remdups themes)))"

definition analyze_pdf_content ::
  "(string list \<Rightarrow> string list) \<Rightarrow> string \<Rightarrow> string list \<Rightarrow> pdf_analysis" where
  "analyze_pdf_content set_order text page_texts =
     (let words = py_split text;
          sentences = split_sentences text;
          potential_topics = extract_potential_topics text;
          avg_word_length =
            (if words \<noteq> [] then int_true_div (int (sum_list (map length words))) (int (length words))
             else 0);
          avg_sentence_length =
            (if sentences \<noteq> [] then int_true_div (int (length words)) (int (length sentences))
             else 0)
      in \<lparr> statistics =
             \<lparr> totalPages = length page_texts,
               totalWords = length words,
               totalSentences = length sentences,
               averageWordLength = py_round2 avg_word_length,
               averageSentenceLength = py_round2 avg_sentence_length \<rparr>,
           contentAnalysis =
             \<lparr> content_type = determine_content_type text,
               complexity =
                 (if avg_word_length > 5 \<and> avg_sentence_length > 15 then ''high''
                  else if avg_word_length > 4 then ''medium'' else ''low''),
               technicalLevel = estimate_technical_level text \<rparr>,
           potentialQuizTopics = take 5 potential_topics,
           keyThemes = take 5 (extract_key_themes set_order text) \<rparr>)"

section \<open>Quiz enhancer\<close>

text \<open>\<open>str(n)\<close> for a natural number.\<close>

fun str_nat :: "nat \<Rightarrow> string" where
  "str_nat n =
     (if n < 10 then [char_of (48 + n)] else str_nat (n div 10) @ [char_of (48 + n mod 10)])"

declare str_nat.simps [simp del]

text \<open>
  \<open>s.replace(old, '')\<close> for a non-empty \<open>old\<close>: the occurrences are removed left to
  right; \<open>skip\<close> counts the characters of an occurrence still to be dropped.
\<close>

fun remove_all :: "string \<Rightarrow> nat \<Rightarrow> string \<Rightarrow> string" where
  "remove_all old skip [] = []"
| "remove_all old skip (c # cs) =
     (if skip > 0 then remove_all old (skip - 1) cs
      else if starts_with old (c # cs) then remove_all old (length old - 1) cs
      else c # remove_all old 0 cs)"

definition py_strip :: "string \<Rightarrow> string" where
  "py_strip s = rev (dropWhile is_space (rev (dropWhile is_space s)))"

definition enhance_explanation :: "string \<Rightarrow> string" where
  "enhance_explanation explanation =
     (if length (py_split explanation) < 10
      then explanation @ '' This understanding is crucial for building a comprehensive knowledge base and applying concepts in practical scenarios.''
      else explanation)"

text \<open>
  One pass of the loop of \<open>enhance_quiz_comprehensively\<close>, for the question at position
  \<open>i\<close>; \<open>enhanced\<close> is the quiz as the statements before the loop leave it.
\<close>

definition enhance_question :: "quiz \<Rightarrow> nat \<Rightarrow> question \<Rightarrow> question" where
  "enhance_question enhanced i question =
     (let q1 = (if question_educationalTip question = None
                then question\<lparr>question_educationalTip :=
                       Some (generate_educational_tip (get_or (quiz_title enhanced) ''topic'')
                               (''concept '' @ str_nat (i + 1)))\<rparr>
                else question);
          q2 = (if question_tags q1 = None
                then q1\<lparr>question_tags :=
                       Some [py_lower (get_or (quiz_category enhanced) ''general''),
                             get_or (question_difficulty q1) ''medium'',
                             ''question_'' @ str_nat (i + 1)]\<rparr>
                else q1)
      in case question_explanation q2 of
           Some explanation \<Rightarrow> q2\<lparr>question_explanation := Some (enhance_explanation explanation)\<rparr>
         | None \<Rightarrow> q2)"

text \<open>
  The statements of \<open>enhance_quiz_comprehensively\<close> before its loop: the title, the
  description and the learning objectives.
\<close>

definition enhance_quiz_header :: "quiz \<Rightarrow> quiz" where
  "enhance_quiz_header quiz =
     (let e1 = quiz\<lparr>quiz_title := map_option (\<lambda>t. ''Enhanced: '' @ t) (quiz_title quiz)\<rparr>;
          e2 = e1\<lparr>quiz_description := map_option (\<lambda>d. d @ ''\<newline>\<newline>This quiz has been enhanced with additional explanations, varied difficulty levels, and educational tips.'')
                     (quiz_description e1)\<rparr>
      in if quiz_learningObjectives e2 = None
         then let topic = py_strip (remove_all ''quiz'' 0
                            (remove_all ''Quiz'' 0 (get_or (quiz_title e2) [])))
              in e2\<lparr>quiz_learningObjectives := Some (generate_learning_objectives topic 3)\<rparr>
         else e2)"

text \<open>
  The loop and the metadata; \<open>now\<close> is the reading of \<open>datetime.now().isoformat()\<close>.
\<close>

definition enhance_quiz_comprehensively :: "string \<Rightarrow> quiz \<Rightarrow> quiz" where
  "enhance_quiz_comprehensively now quiz =
     (let e3 = enhance_quiz_header quiz;
          e4 = e3\<lparr>quiz_questions :=
                  map_option (\<lambda>qs. map (\<lambda>(i, question). enhance_question e3 i question) (enumerate 0 qs))
                    (quiz_questions e3)\<rparr>
      in e4\<lparr>quiz_metadata := Some
              (dict_set ''aiEnhanced'' (JBool True)
              (dict_set ''totalEnhancements'' (JInt (int (length (get_or (quiz_questions e4) []))))
              (dict_set ''enhancementDate'' (JStr now)
              (dict_set ''comprehensivelyEnhanced'' (JBool True)
                 (get_or (quiz_metadata e4) [])))))\<rparr>)"

text \<open>The two loops of \<open>enhance_quiz_content\<close>, one question at a time.\<close>

definition add_explanation :: "quiz \<Rightarrow> question \<Rightarrow> question" where
  "add_explanation quiz question =
     (if question_explanation question = None \<or> question_explanation question = Some []
      then question\<lparr>question_explanation :=
             Some (create_detailed_explanation (get_or (quiz_title quiz) ''topic'') ''key concept''
                     (get_or (question_difficulty question) ''medium''))\<rparr>
      else question)"

definition adjust_difficulty :: "nat \<Rightarrow> question \<Rightarrow> question" where
  "adjust_difficulty i question =
     (if i mod 3 = 0
      then question\<lparr>question_difficulty := Some ''easy'', question_points := Some 100,
                    question_timeLimit := Some 30\<rparr>
      else if i mod 3 = 1
      then question\<lparr>question_difficulty := Some ''medium'', question_points := Some 150,
                    question_timeLimit := Some 45\<rparr>
      else question\<lparr>question_difficulty := Some ''hard'', question_points := Some 200,
                    question_timeLimit := Some 60\<rparr>)"

text \<open>
  \<open>now_comprehensive\<close> is the clock reading taken inside the comprehensive pass, \<open>now\<close>
  the one stamped as \<open>enhancedAt\<close>.
\<close>

definition enhance_quiz_content :: "string \<Rightarrow> string \<Rightarrow> quiz \<Rightarrow> string \<Rightarrow> quiz" where
  "enhance_quiz_content now_comprehensive now quiz enhancement_type =
     (let enhanced =
            (if enhancement_type = ''explanations''
             then quiz\<lparr>quiz_questions := map_option (map (add_explanation quiz)) (quiz_questions quiz)\<rparr>
             else if enhancement_type = ''difficulty''
             then quiz\<lparr>quiz_questions :=
                    map_option (\<lambda>qs. map (\<lambda>(i, question). adjust_difficulty i question) (enumerate 0 qs))
                      (quiz_questions quiz)\<rparr>
             else if enhancement_type = ''comprehensive''
             then enhance_quiz_comprehensively now_comprehensive quiz
             else quiz)
      in enhanced\<lparr>quiz_metadata := Some
           (dict_set ''enhancementProvider'' (JStr ''quizito_ai'')
           (dict_set ''enhancementType'' (JStr enhancement_type)
           (dict_set ''enhancedAt'' (JStr now)
              (get_or (quiz_metadata enhanced) []))))\<rparr>)"

section \<open>The total-points invariant and sample data\<close>

text \<open>
  The invariant of the data model: \<open>totalPoints\<close> is present, every question carries
  its points, and \<open>totalPoints\<close> is their sum.
\<close>

definition points_sum :: "question list \<Rightarrow> int" where
  "points_sum qs = sum_list (map (\<lambda>q. get_or (question_points q) 0) qs)"

definition total_points_invariant :: "quiz \<Rightarrow> bool" where
  "total_points_invariant quiz =
     (let qs = get_or (quiz_questions quiz) [] in
      list_all (\<lambda>q. question_points q \<noteq> None) qs
      \<and> quiz_totalPoints quiz = Some (points_sum qs))"

text \<open>
  A quiz as the enhancement endpoint may receive it: five hard questions of 200 points,
  of which two have no explanation, one has an empty one and two have one.
\<close>

definition sample_question :: "string option \<Rightarrow> question" where
  "sample_question expl =
     \<lparr> question_text = Some ''What is a cell?'',
       question_type = Some ''multiple-choice'',
       question_options = Some [''A unit of life'', ''A rock'', ''A star'', ''A wave''],
       question_correctAnswer = Some 0,
       question_explanation = expl,
       question_points = Some 200,
       question_timeLimit = Some 60,
       question_difficulty = Some ''hard'',
       question_category = None,
       question_tags = None,
       question_educationalTip = None \<rparr>"

definition sample_quiz :: quiz where
  "sample_quiz =
     \<lparr> quiz_title = Some ''Biology Quiz'',
       quiz_description = None,
       quiz_category = Some ''Science'',
       quiz_difficulty = Some ''hard'',
       quiz_estimatedTime = None,
       quiz_totalPoints = Some 1000,
       quiz_learningObjectives = None,
       quiz_questions = Some
         [sample_question None, sample_question (Some []),
          sample_question (Some ''Cells are the units of life.''),
          sample_question None, sample_question (Some ''See chapter 2.'')],
       quiz_tags = None,
       quiz_metadata = None \<rparr>"

section \<open>The ranking of potential topics\<close>

text \<open>
  What the description of the potential topics asks of a list \<open>ts\<close>, for a bound \<open>k\<close>:
  the candidates are the capitalized words of the text outside the stop list, the
  frequency of a word is the number of its occurrences, and \<open>ts\<close> lists without
  repetition \<open>k\<close> candidates (all of them where the text has fewer), in descending order
  of frequency, such that no candidate left out is more frequent than a listed one.
\<close>

definition topic_candidates :: "string \<Rightarrow> string list" where
  "topic_candidates text = filter (\<lambda>w. w \<notin> set topic_stop_words) (findall_capitalized text)"

definition frequency :: "string \<Rightarrow> string \<Rightarrow> nat" where
  "frequency text w = count_list (findall_capitalized text) w"

definition is_top_topics :: "nat \<Rightarrow> string \<Rightarrow> string list \<Rightarrow> bool" where
  "is_top_topics k text ts =
     (distinct ts
      \<and> list_all (\<lambda>w. w \<in> set (topic_candidates text)) ts
      \<and> length ts = min k (length (remdups (topic_candidates text)))
      \<and> sorted_wrt (\<lambda>a b. frequency text b \<le> frequency text a) ts
      \<and> list_all (\<lambda>w. w \<in> set ts \<or> list_all (\<lambda>v. frequency text w \<le> frequency text v) ts)
           (topic_candidates text))"

section \<open>The topic classifier and the aspect generator\<close>

lemma category_names:
  "map (\<lambda>item. py_capitalize (fst item)) categories =
     [''Technology'', ''Science'', ''History'', ''Mathematics'', ''Business'']"
  by code_simp

lemma find_first_match:
  assumes "j < length xs" and "P (xs ! j)" and "\<forall>k<j. \<not> P (xs ! k)"
  shows "find P xs = Some (xs ! j)"
  using assms by (auto simp: find_Some_iff)

lemma categorize_topic_range:
  "categorize_topic topic \<in> {''Technology'', ''Science'', ''History'', ''Mathematics'', ''Business'', ''General''}"
proof (cases "find (category_matches (py_lower topic)) categories")
  case None
  then show ?thesis by (simp add: categorize_topic_def)
next
  case (Some item)
  then have "item \<in> set categories"
    by (auto simp: find_Some_iff)
  then have "py_capitalize (fst item) \<in> set (map (\<lambda>item. py_capitalize (fst item)) categories)"
    by simp
  then show ?thesis
    using Some unfolding category_names by (auto simp: categorize_topic_def)
qed

text \<open>
  Claim C4.  The classifier is a total function into the six category names.  It
  lower-cases the topic and returns the capitalized name of the first category, in the
  order of declaration, one of whose keywords is a substring of the lower-cased topic,
  and \<open>General\<close> when no category has such a keyword; \<open>Python programming\<close> is
  classified as \<open>Technology\<close> and the empty topic as \<open>General\<close>.
\<close>

theorem categorize_topic_first_match:
  "categorize_topic topic \<in>
     {''Technology'', ''Science'', ''History'', ''Mathematics'', ''Business'', ''General''}
   \<and> (\<forall>j<length categories.
         (\<exists>keyword\<in>set (snd (categories ! j)). substring_in keyword (py_lower topic))
         \<and> (\<forall>k<j. \<forall>keyword\<in>set (snd (categories ! k)). \<not> substring_in keyword (py_lower topic))
         \<longrightarrow> categorize_topic topic = py_capitalize (fst (categories ! j)))
   \<and> ((\<forall>j<length categories. \<forall>keyword\<in>set (snd (categories ! j)).
          \<not> substring_in keyword (py_lower topic))
        \<longrightarrow> categorize_topic topic = ''General'')
   \<and> map (\<lambda>item. py_capitalize (fst item)) categories =
        [''Technology'', ''Science'', ''History'', ''Mathematics'', ''Business'']
   \<and> categorize_topic ''Python programming'' = ''Technology''
   \<and> categorize_topic [] = ''General''"
proof (intro conjI allI impI)
  show "categorize_topic topic \<in>
     {''Technology'', ''Science'', ''History'', ''Mathematics'', ''Business'', ''General''}"
    by (rule categorize_topic_range)
next
  fix j
  assume j: "j < length categories"
    and m: "(\<exists>keyword\<in>set (snd (categories ! j)). substring_in keyword (py_lower topic))
         \<and> (\<forall>k<j. \<forall>keyword\<in>set (snd (categories ! k)). \<not> substring_in keyword (py_lower topic))"
  have "find (category_matches (py_lower topic)) categories = Some (categories ! j)"
    using j m by (intro find_first_match) (auto simp: category_matches_def list_ex_iff)
  then show "categorize_topic topic = py_capitalize (fst (categories ! j))"
    by (simp add: categorize_topic_def)
next
  assume "\<forall>j<length categories. \<forall>keyword\<in>set (snd (categories ! j)).
          \<not> substring_in keyword (py_lower topic)"
  then have "find (category_matches (py_lower topic)) categories = None"
    by (auto simp: find_None_iff category_matches_def list_ex_iff in_set_conv_nth)
  then show "categorize_topic topic = ''General''"
    by (simp add: categorize_topic_def)
next
  show "map (\<lambda>item. py_capitalize (fst item)) categories =
        [''Technology'', ''Science'', ''History'', ''Mathematics'', ''Business'']"
    by (rule category_names)
next
  show "categorize_topic ''Python programming'' = ''Technology''"
    by code_simp
next
  show "categorize_topic [] = ''General''"
    by code_simp
qed

text \<open>
  The first match wins: \<open>Modern algebra\<close> has a keyword of the history list and one of
  the mathematics list, and is classified as \<open>History\<close>.
\<close>

theorem categorize_topic_first_match_witness:
  "categorize_topic ''Modern algebra'' = ''History''"
proof -
  have len: "(2::nat) < length categories"
    by (simp add: categories_def)
  have hit: "\<exists>keyword\<in>set (snd (categories ! 2)). substring_in keyword (py_lower ''Modern algebra'')"
    by code_simp
  have miss: "\<forall>k<2. \<forall>keyword\<in>set (snd (categories ! k)). \<not> substring_in keyword (py_lower ''Modern algebra'')"
  proof (intro allI impI)
    fix k :: nat assume "k < 2"
    then have "k = 0 \<or> k = 1" by auto
    moreover have "\<forall>keyword\<in>set (snd (categories ! 0)). \<not> substring_in keyword (py_lower ''Modern algebra'')"
      by code_simp
    moreover have "\<forall>keyword\<in>set (snd (categories ! 1)). \<not> substring_in keyword (py_lower ''Modern algebra'')"
      by code_simp
    ultimately show "\<forall>keyword\<in>set (snd (categories ! k)). \<not> substring_in keyword (py_lower ''Modern algebra'')"
      by auto
  qed
  have cap: "py_capitalize (fst (categories ! 2)) = ''History''"
    by code_simp
  from categorize_topic_first_match [of "''Modern algebra''"]
  have "\<forall>j<length categories.
         (\<exists>keyword\<in>set (snd (categories ! j)). substring_in keyword (py_lower ''Modern algebra''))
         \<and> (\<forall>k<j. \<forall>keyword\<in>set (snd (categories ! k)). \<not> substring_in keyword (py_lower ''Modern algebra''))
         \<longrightarrow> categorize_topic ''Modern algebra'' = py_capitalize (fst (categories ! j))"
    by blast
  with len hit miss have "categorize_topic ''Modern algebra'' = py_capitalize (fst (categories ! 2))"
    by blast
  with cap show ?thesis by simp
qed

lemma templates_for_cases:
  "templates_for topic \<in> set (map snd aspect_templates)"
  unfolding templates_for_def
  by (auto split: option.splits dest: map_of_SomeD simp: aspect_templates_def)

lemma templates_for_length: "length (templates_for topic) = 9 \<or> length (templates_for topic) = 10"
  using templates_for_cases[of topic]
  by (auto simp: aspect_templates_def general_templates_def)

lemma py_slice_to_all: "0 \<le> k \<Longrightarrow> length xs \<le> nat k \<Longrightarrow> py_slice_to k xs = xs"
  by (simp add: py_slice_to_def)

lemma general_for_others:
  "categorize_topic topic \<in> {''Mathematics'', ''Business'', ''General''} \<Longrightarrow> templates_for topic = general_templates"
proof -
  have "py_lower ''Mathematics'' = ''mathematics''" "py_lower ''Business'' = ''business''"
       "py_lower ''General'' = ''general''"
    by code_simp+
  moreover assume "categorize_topic topic \<in> {''Mathematics'', ''Business'', ''General''}"
  ultimately show ?thesis
    by (auto simp: templates_for_def aspect_templates_def)
qed

text \<open>
  Claim C3.  For a count \<open>n \<ge> 0\<close> the aspect generator returns exactly \<open>n\<close> aspects;
  the aspect at index \<open>i\<close> is the fragment at \<open>i mod len(fragments)\<close>, followed by
  \<open>" of "\<close> and the topic, where the fragments are the list of the topic's category and
  the general list for a category without a list of its own; hence the aspect at \<open>i\<close>
  equals the aspect at \<open>i mod len(fragments)\<close>.
\<close>

theorem generate_aspects_cyclic:
  "0 \<le> n \<Longrightarrow>
     length (generate_aspects_from_topic topic n) = nat n
   \<and> (\<forall>i<nat n. generate_aspects_from_topic topic n ! i =
          templates_for topic ! (i mod length (templates_for topic)) @ '' of '' @ topic)
   \<and> (\<forall>i<nat n. generate_aspects_from_topic topic n ! i =
          generate_aspects_from_topic topic n ! (i mod length (templates_for topic)))
   \<and> templates_for topic =
        dict_get aspect_templates (py_lower (categorize_topic topic)) general_templates
   \<and> templates_for topic \<noteq> []
   \<and> (categorize_topic topic \<in> {''Mathematics'', ''Business'', ''General''}
        \<longrightarrow> templates_for topic = general_templates)"
proof -
  assume n: "0 \<le> n"
  let ?ts = "templates_for topic"
  have pos: "0 < length ?ts"
    using templates_for_length[of topic] by auto
  have eq: "generate_aspects_from_topic topic n =
      map (\<lambda>i. ?ts ! (i mod length ?ts) @ '' of '' @ topic) [0..<nat n]"
    using n by (simp add: generate_aspects_from_topic_def Let_def py_range_def py_slice_to_def)
  have nth: "generate_aspects_from_topic topic n ! i = ?ts ! (i mod length ?ts) @ '' of '' @ topic"
    if "i < nat n" for i
    using that by (simp add: eq)
  have cyc: "generate_aspects_from_topic topic n ! i =
      generate_aspects_from_topic topic n ! (i mod length ?ts)" if "i < nat n" for i
  proof -
    have "i mod length ?ts \<le> i" by simp
    then have "i mod length ?ts < nat n" using that by (rule le_less_trans)
    then show ?thesis using that by (simp add: nth)
  qed
  show ?thesis
    using pos nth cyc general_for_others [of topic]
    by (simp add: eq templates_for_def dict_get_def)
qed

text \<open>
  Twelve aspects of \<open>Spain\<close> (a technology topic, by the keyword \<open>ai\<close>, with ten
  fragments): the twelfth repeats the second.
\<close>

theorem generate_aspects_cyclic_witness:
  "(0::int) \<le> 12
   \<and> length (generate_aspects_from_topic ''Spain'' 12) = 12
   \<and> generate_aspects_from_topic ''Spain'' 12 ! 11 = ''applications of Spain''
   \<and> generate_aspects_from_topic ''Spain'' 12 ! 11 = generate_aspects_from_topic ''Spain'' 12 ! 1"
proof -
  have ts: "templates_for ''Spain'' = snd (aspect_templates ! 0)"
    by code_simp
  have len: "length (templates_for ''Spain'') = 10"
    by (simp add: ts aspect_templates_def)
  have h: "(0::int) \<le> 12" by simp
  from generate_aspects_cyclic [OF h, of "''Spain''"]
  have a: "length (generate_aspects_from_topic ''Spain'' 12) = nat 12"
    and b: "\<forall>i<nat 12. generate_aspects_from_topic ''Spain'' 12 ! i =
          templates_for ''Spain'' ! (i mod length (templates_for ''Spain'')) @ '' of '' @ ''Spain''"
    and c: "\<forall>i<nat 12. generate_aspects_from_topic ''Spain'' 12 ! i =
          generate_aspects_from_topic ''Spain'' 12 ! (i mod length (templates_for ''Spain''))"
    by blast+
  have "generate_aspects_from_topic ''Spain'' 12 ! 11 = templates_for ''Spain'' ! (11 mod 10) @ '' of '' @ ''Spain''"
    using b [rule_format, of 11] by (simp add: len)
  then have b': "generate_aspects_from_topic ''Spain'' 12 ! 11 = ''applications of Spain''"
    by (simp add: ts aspect_templates_def)
  have "generate_aspects_from_topic ''Spain'' 12 ! 11 = generate_aspects_from_topic ''Spain'' 12 ! (11 mod 10)"
    using c [rule_format, of 11] by (simp add: len)
  then have c': "generate_aspects_from_topic ''Spain'' 12 ! 11 = generate_aspects_from_topic ''Spain'' 12 ! 1"
    by simp
  show ?thesis using a b' c' by simp
qed

section \<open>The question synthesizer and the quiz assembler\<close>

lemma index_of_member:
  "x \<in> set ys \<Longrightarrow> \<exists>k. index_of ys x = Some k \<and> k < length ys \<and> ys ! k = x"
proof (induction ys)
  case Nil
  then show ?case by simp
next
  case (Cons y ys)
  then show ?case by (cases "y = x") auto
qed

lemma length_move_to_front: "k < length xs \<Longrightarrow> length (move_to_front k xs) = length xs"
  by (simp add: move_to_front_def)

lemma length_distractors: "length (distractors_for aspect topic d) = 4"
  by (simp add: distractors_for_def)

lemma pin_correct_first:
  assumes perm: "mset ys = mset (c # rest)"
  shows "length (case index_of ys c of None \<Rightarrow> ys
                 | Some k \<Rightarrow> if k \<noteq> 0 then move_to_front k ys else ys) = Suc (length rest)
       \<and> (case index_of ys c of None \<Rightarrow> ys
                 | Some k \<Rightarrow> if k \<noteq> 0 then move_to_front k ys else ys) ! 0 = c"
proof -
  have len: "length ys = Suc (length rest)"
    using mset_eq_length [OF perm] by simp
  have "set ys = set (c # rest)" using perm by (rule mset_eq_setD)
  then have "c \<in> set ys" by simp
  then have "\<exists>k. index_of ys c = Some k \<and> k < length ys \<and> ys ! k = c"
    by (rule index_of_member)
  then obtain k where k: "index_of ys c = Some k" "k < length ys" "ys ! k = c"
    by (elim exE conjE)
  show ?thesis
  proof (cases "k = 0")
    case True
    then show ?thesis using k len by simp
  next
    case False
    then show ?thesis
      using k len by (simp add: move_to_front_def)
  qed
qed

lemma plausible_options_shape:
  assumes perm: "mset (shuffle ((''The '' @ aspect) # take 3 (distractors_for aspect topic d)))
                 = mset ((''The '' @ aspect) # take 3 (distractors_for aspect topic d))"
  shows "length (generate_plausible_options shuffle aspect topic d) = 4
       \<and> generate_plausible_options shuffle aspect topic d ! 0 = ''The '' @ aspect"
proof -
  have "length (take 3 (distractors_for aspect topic d)) = 3"
    by (simp add: length_distractors)
  with pin_correct_first [OF perm] show ?thesis
    unfolding generate_plausible_options_def Let_def by (simp only:) simp
qed

text \<open>
  Claim C2.  Whatever permutation the shuffle produces, the option list of a synthesized
  question has exactly four entries and its first entry is the string \<open>The\<close>, a space
  and the aspect; the question records this list as its options, and \<open>0\<close> as the index
  of the correct answer.
\<close>

theorem correct_option_first:
  "(\<forall>xs. mset (shuffle xs) = mset xs) \<Longrightarrow>
     length (generate_plausible_options shuffle aspect topic difficulty) = 4
   \<and> generate_plausible_options shuffle aspect topic difficulty ! 0 = ''The '' @ aspect
   \<and> question_options (fallback_question shuffle topic difficulty quiz_type aspects i) =
        Some (generate_plausible_options shuffle (aspects ! (i mod length aspects)) topic difficulty)
   \<and> question_correctAnswer (fallback_question shuffle topic difficulty quiz_type aspects i) = Some 0"
proof -
  assume "\<forall>xs. mset (shuffle xs) = mset xs"
  then have "mset (shuffle ((''The '' @ aspect) # take 3 (distractors_for aspect topic difficulty)))
           = mset ((''The '' @ aspect) # take 3 (distractors_for aspect topic difficulty))"
    by blast
  then have "length (generate_plausible_options shuffle aspect topic difficulty) = 4
       \<and> generate_plausible_options shuffle aspect topic difficulty ! 0 = ''The '' @ aspect"
    by (rule plausible_options_shape)
  then show ?thesis
    by (simp add: fallback_question_def Let_def)
qed

text \<open>
  With the shuffle that reverses the list, the correct option is moved from the last
  position back to the first, and the distractors stay reversed.
\<close>

theorem correct_option_first_witness:
  "(\<forall>xs :: string list. mset (rev xs) = mset xs)
   \<and> length (generate_plausible_options rev ''causes of Rome'' ''Rome'' ''hard'') = 4
   \<and> generate_plausible_options rev ''causes of Rome'' ''Rome'' ''hard'' ! 0 = ''The causes of Rome''
   \<and> generate_plausible_options rev ''causes of Rome'' ''Rome'' ''hard'' ! 1
        = ''An advanced technical detail unrelated to causes of Rome''"
proof -
  have h: "\<forall>xs :: string list. mset (rev xs) = mset xs" by simp
  have moved: "generate_plausible_options rev ''causes of Rome'' ''Rome'' ''hard'' ! 1
        = ''An advanced technical detail unrelated to causes of Rome''"
    by code_simp
  from correct_option_first [OF h, of "''causes of Rome''" "''Rome''" "''hard''"] h moved
  show ?thesis by simp
qed

lemma fallback_quiz_result:
  assumes "\<bar>n\<bar> < 2 ^ 1024 - 2 ^ 970"
  shows "\<exists>quiz. generate_enhanced_fallback_quiz sh topic d n qt ctx = Inr quiz
     \<and> quiz_questions quiz =
         Some (map (\<lambda>i. fallback_question (sh i) topic d qt (generate_aspects_from_topic topic n) i)
                   (py_range n))
     \<and> quiz_totalPoints quiz = Some (n * dict_get points_map d 100)
     \<and> quiz_estimatedTime quiz = Some (float_mul (round_double (of_int n)) (float_literal 8 10))
     \<and> quiz_title quiz = Some (''Comprehensive Quiz: '' @ topic)"
proof -
  have "int_to_float n = Inr (round_double (of_int n))"
    using assms unfolding int_to_float_def by (simp only: not_le[symmetric] if_False)
  then show ?thesis
    by (simp add: generate_enhanced_fallback_quiz_def Let_def)
qed

lemma fallback_question_fields:
  "question_points (fallback_question s topic d qt aspects i) = Some (dict_get points_map d 100)"
  "question_timeLimit (fallback_question s topic d qt aspects i) = Some (dict_get time_map d 30)"
  "question_difficulty (fallback_question s topic d qt aspects i) = Some d"
  "question_explanation (fallback_question s topic d qt aspects i) =
     Some (create_detailed_explanation topic (aspects ! (i mod length aspects)) d)"
  by (simp_all add: fallback_question_def Let_def)

lemma points_for_known:
  "dict_get points_map ''easy'' 100 = 100" "dict_get points_map ''medium'' 100 = 150"
  "dict_get points_map ''hard'' 100 = 200"
  "dict_get time_map ''easy'' 30 = 30" "dict_get time_map ''medium'' 30 = 45"
  "dict_get time_map ''hard'' 30 = 60"
  by (simp_all add: dict_get_def points_map_def time_map_def)

lemma points_for_unknown:
  assumes "d \<noteq> ''easy''" "d \<noteq> ''medium''" "d \<noteq> ''hard''"
  shows "dict_get points_map d 100 = 100" "dict_get time_map d 30 = 30"
    "create_detailed_explanation topic aspect d = create_detailed_explanation topic aspect ''medium''"
  using assms
  by (simp_all add: dict_get_def points_map_def time_map_def create_detailed_explanation_def explanations_def)


text \<open>An integer below \<open>2 ^ 53\<close> converts to a float exactly.\<close>

lemma bitlen_one: "bitlen 1 = 1"
  by (simp add: bitlen_alt_def)

lemma round_half_even_int: "round_half_even (of_int m) = m"
  by (simp add: round_half_even_def)

lemma round_double_small_int:
  assumes "0 \<le> n" "n < 2 ^ 53"
  shows "round_double (of_int n) = of_int n"
proof (cases "n = 0")
  case True
  then show ?thesis by (simp add: round_double_def)
next
  case False
  with assms have pos: "0 < n" by simp
  define e where "e = bitlen n - 1"
  have b: "2 ^ nat e \<le> n" "n < 2 ^ nat (bitlen n)"
    using bitlen_bounds [OF pos] by (simp_all add: e_def)
  have "bitlen n \<le> 53"
    using assms(2) by (simp add: bitlen_le_iff_power)
  moreover have "1 \<le> bitlen n"
    using pos by (simp add: bitlen_alt_def)
  ultimately have e: "0 \<le> e" "e \<le> 52" by (simp_all add: e_def)
  have "(2::rat) ^ nat e \<le> of_int n"
    using b(1) by (metis of_int_le_iff of_int_numeral of_int_power)
  then have fl: "floor_log2 (of_int n) = e"
    using e(1) by (simp add: floor_log2_def bitlen_one e_def pow2_def)
  define k where "k = nat (52 - e)"
  have ulp: "pow2 (e - 52) = 1 / 2 ^ k"
    using e by (auto simp: pow2_def k_def)
  have r: "round_half_even (rat_of_int n * 2 ^ k) = n * 2 ^ k"
    using round_half_even_int [of "n * 2 ^ k"] by simp
  have abs: "\<bar>rat_of_int n\<bar> = of_int n" using pos by simp
  have mx: "max e (- 1022) = e" using e by simp
  show ?thesis
    using False
    by (simp add: round_double_def Let_def abs fl mx ulp r)
qed

lemma three_times_point_eight:
  "float_mul (round_double (of_int 3)) (float_literal 8 10) = 5404319552844596 / 2 ^ 51"
  "float_mul (round_double (of_int 3)) (float_literal 8 10) \<noteq> float_literal 24 10"
  by code_simp+

lemma title_contains_topic: "substring_in ''Photosynthesis'' (''Comprehensive Quiz: '' @ ''Photosynthesis'')"
  by code_simp

lemma fallback_questions_all:
  "list_all (\<lambda>q. question_points q = Some (dict_get points_map d 100)
                \<and> question_timeLimit q = Some (dict_get time_map d 30)
                \<and> question_difficulty q = Some d)
     (map (\<lambda>i. fallback_question (sh i) topic d qt aspects i) (py_range n))"
  by (simp add: list_all_iff fallback_question_fields)

text \<open>
  Claim C1, amended.  For a difficulty among easy, medium and hard and a count \<open>n \<ge> 0\<close>
  that converts to a float, the assembler returns a quiz with exactly \<open>n\<close> questions,
  \<open>totalPoints\<close> equal to \<open>n\<close> times 100, 150 or 200, and \<open>estimatedTime\<close> equal to the
  binary64 product of \<open>n\<close> and the float \<open>0.8\<close> (a count below \<open>2 ^ 53\<close> enters the
  product unrounded).  For \<open>Photosynthesis\<close>, easy, three
  questions, multiple choice and no context, the title contains the topic, each of the
  three questions has 100 points, 30 seconds and difficulty easy, the total is 300, and
  the estimated time is the float \<open>2.4000000000000004\<close> (5404319552844596 times
  \<open>2 ^ -51\<close>), which is not the float \<open>2.4\<close>.
\<close>

theorem fallback_quiz_totals:
  "difficulty \<in> {''easy'', ''medium'', ''hard''} \<Longrightarrow> 0 \<le> n \<Longrightarrow> n < 2 ^ 1024 - 2 ^ 970 \<Longrightarrow>
     (\<exists>quiz qs.
        generate_enhanced_fallback_quiz shuffle_at topic difficulty n quiz_type context = Inr quiz
        \<and> quiz_questions quiz = Some qs \<and> int (length qs) = n
        \<and> quiz_totalPoints quiz =
            Some (n * (if difficulty = ''easy'' then 100 else if difficulty = ''medium'' then 150 else 200))
        \<and> quiz_estimatedTime quiz = Some (float_mul (round_double (of_int n)) (float_literal 8 10)))
   \<and> (\<exists>quiz qs t.
        generate_enhanced_fallback_quiz shuffle_at ''Photosynthesis'' ''easy'' 3 ''multiple-choice'' [] = Inr quiz
        \<and> quiz_title quiz = Some t \<and> substring_in ''Photosynthesis'' t
        \<and> quiz_questions quiz = Some qs \<and> length qs = 3
        \<and> list_all (\<lambda>q. question_points q = Some 100 \<and> question_timeLimit q = Some 30
                         \<and> question_difficulty q = Some ''easy'') qs
        \<and> quiz_totalPoints quiz = Some 300
        \<and> quiz_estimatedTime quiz = Some (5404319552844596 / 2 ^ 51)
        \<and> quiz_estimatedTime quiz \<noteq> Some (float_literal 24 10))
   \<and> (n < 2 ^ 53 \<longrightarrow> round_double (of_int n) = of_int n)"
proof (intro conjI impI)
  assume "0 \<le> n" "n < 2 ^ 53"
  then show "round_double (of_int n) = of_int n"
    by (rule round_double_small_int)
next
  assume d: "difficulty \<in> {''easy'', ''medium'', ''hard''}" and n: "0 \<le> n" "n < 2 ^ 1024 - 2 ^ 970"
  have "\<bar>n\<bar> < 2 ^ 1024 - 2 ^ 970" using n by simp
  from fallback_quiz_result [OF this, of shuffle_at topic difficulty quiz_type "context"]
  obtain quiz where q: "generate_enhanced_fallback_quiz shuffle_at topic difficulty n quiz_type context = Inr quiz"
     "quiz_questions quiz =
         Some (map (\<lambda>i. fallback_question (shuffle_at i) topic difficulty quiz_type
                      (generate_aspects_from_topic topic n) i) (py_range n))"
     "quiz_totalPoints quiz = Some (n * dict_get points_map difficulty 100)"
     "quiz_estimatedTime quiz = Some (float_mul (round_double (of_int n)) (float_literal 8 10))"
    by (elim exE conjE)
  have pts: "dict_get points_map difficulty 100 =
      (if difficulty = ''easy'' then 100 else if difficulty = ''medium'' then 150 else 200)"
    using d by (auto simp: points_for_known)
  have "int (length (map (\<lambda>i. fallback_question (shuffle_at i) topic difficulty quiz_type
                      (generate_aspects_from_topic topic n) i) (py_range n))) = n"
    using n by (simp add: py_range_def)
  with q pts show "\<exists>quiz qs.
        generate_enhanced_fallback_quiz shuffle_at topic difficulty n quiz_type context = Inr quiz
        \<and> quiz_questions quiz = Some qs \<and> int (length qs) = n
        \<and> quiz_totalPoints quiz =
            Some (n * (if difficulty = ''easy'' then 100 else if difficulty = ''medium'' then 150 else 200))
        \<and> quiz_estimatedTime quiz = Some (float_mul (round_double (of_int n)) (float_literal 8 10))"
    by (intro exI conjI) (simp_all only:)
next
  have "\<bar>3::int\<bar> < 2 ^ 1024 - 2 ^ 970" by simp
  from fallback_quiz_result [OF this, of shuffle_at "''Photosynthesis''" "''easy''" "''multiple-choice''" "[]"]
  obtain quiz where q: "generate_enhanced_fallback_quiz shuffle_at ''Photosynthesis'' ''easy'' 3 ''multiple-choice'' [] = Inr quiz"
     "quiz_questions quiz =
         Some (map (\<lambda>i. fallback_question (shuffle_at i) ''Photosynthesis'' ''easy'' ''multiple-choice''
                      (generate_aspects_from_topic ''Photosynthesis'' 3) i) (py_range 3))"
     "quiz_totalPoints quiz = Some (3 * dict_get points_map ''easy'' 100)"
     "quiz_estimatedTime quiz = Some (float_mul (round_double (of_int 3)) (float_literal 8 10))"
     "quiz_title quiz = Some (''Comprehensive Quiz: '' @ ''Photosynthesis'')"
    by (elim exE conjE)
  let ?qs = "map (\<lambda>i. fallback_question (shuffle_at i) ''Photosynthesis'' ''easy'' ''multiple-choice''
                      (generate_aspects_from_topic ''Photosynthesis'' 3) i) (py_range 3)"
  have len: "length ?qs = 3" by (simp add: py_range_def)
  have all: "list_all (\<lambda>q. question_points q = Some 100 \<and> question_timeLimit q = Some 30
                         \<and> question_difficulty q = Some ''easy'') ?qs"
    using fallback_questions_all [of "''easy''" shuffle_at "''Photosynthesis''" "''multiple-choice''"
        "generate_aspects_from_topic ''Photosynthesis'' 3" 3]
    by (simp only: points_for_known)
  have tp: "quiz_totalPoints quiz = Some 300"
    using q(3) by (simp add: points_for_known)
  have et: "quiz_estimatedTime quiz = Some (5404319552844596 / 2 ^ 51)"
    using q(4) by (simp only: three_times_point_eight)
  have ne: "quiz_estimatedTime quiz \<noteq> Some (float_literal 24 10)"
    using q(4) three_times_point_eight(2) by simp
  show "\<exists>quiz qs t.
        generate_enhanced_fallback_quiz shuffle_at ''Photosynthesis'' ''easy'' 3 ''multiple-choice'' [] = Inr quiz
        \<and> quiz_title quiz = Some t \<and> substring_in ''Photosynthesis'' t
        \<and> quiz_questions quiz = Some qs \<and> length qs = 3
        \<and> list_all (\<lambda>q. question_points q = Some 100 \<and> question_timeLimit q = Some 30
                         \<and> question_difficulty q = Some ''easy'') qs
        \<and> quiz_totalPoints quiz = Some 300
        \<and> quiz_estimatedTime quiz = Some (5404319552844596 / 2 ^ 51)
        \<and> quiz_estimatedTime quiz \<noteq> Some (float_literal 24 10)"
    using q(1) q(5) title_contains_topic q(2) len all tp et ne
    by (intro exI conjI)
qed


text \<open>Two hard questions about Rome: 400 points.\<close>

theorem fallback_quiz_totals_witness:
  "''hard'' \<in> {''easy'', ''medium'', ''hard''} \<and> (0::int) \<le> 2 \<and> (2::int) < 2 ^ 1024 - 2 ^ 970
   \<and> (\<exists>quiz qs.
        generate_enhanced_fallback_quiz (\<lambda>i. rev) ''Rome'' ''hard'' 2 ''multiple-choice'' [] = Inr quiz
        \<and> quiz_questions quiz = Some qs \<and> int (length qs) = 2
        \<and> quiz_totalPoints quiz = Some 400
        \<and> quiz_estimatedTime quiz = Some (float_mul (round_double (of_int 2)) (float_literal 8 10)))"
proof -
  have d: "''hard'' \<in> {''easy'', ''medium'', ''hard''}" by simp
  have lo: "(0::int) \<le> 2" by simp
  have hi: "(2::int) < 2 ^ 1024 - 2 ^ 970" by simp
  from fallback_quiz_totals [OF d lo hi, of "\<lambda>i. rev" "''Rome''" "''multiple-choice''" "[]",
      THEN conjunct1]
  have "\<exists>quiz qs.
        generate_enhanced_fallback_quiz (\<lambda>i. rev) ''Rome'' ''hard'' 2 ''multiple-choice'' [] = Inr quiz
        \<and> quiz_questions quiz = Some qs \<and> int (length qs) = 2
        \<and> quiz_totalPoints quiz = Some 400
        \<and> quiz_estimatedTime quiz = Some (float_mul (round_double (of_int 2)) (float_literal 8 10))"
    by simp
  with d lo hi show ?thesis by (intro conjI)
qed

text \<open>
  Claim C1 as stated fails in its last clause: the estimated time of the three-question
  quiz is the product \<open>3 * 0.8\<close> rounded to binary64, one unit in the last place above
  the float that the literal \<open>2.4\<close> denotes.
\<close>

theorem estimated_time_is_not_2_4:
  "(case generate_enhanced_fallback_quiz (\<lambda>i. rev) ''Photosynthesis'' ''easy'' 3 ''multiple-choice'' [] of
      Inl err \<Rightarrow> None
    | Inr quiz \<Rightarrow> quiz_estimatedTime quiz) \<noteq> Some (float_literal 24 10)"
proof -
  have "\<bar>3::int\<bar> < 2 ^ 1024 - 2 ^ 970" by simp
  from fallback_quiz_result [OF this, of "\<lambda>i. rev" "''Photosynthesis''" "''easy''" "''multiple-choice''" "[]"]
  obtain quiz where q: "generate_enhanced_fallback_quiz (\<lambda>i. rev) ''Photosynthesis'' ''easy'' 3 ''multiple-choice'' [] = Inr quiz"
     "quiz_estimatedTime quiz = Some (float_mul (round_double (of_int 3)) (float_literal 8 10))"
    by (elim exE conjE)
  show ?thesis
    using three_times_point_eight(2) by (simp add: q)
qed

text \<open>
  Claim C10.  For a difficulty that is none of easy, medium and hard, a synthesized
  question has 100 points and 30 seconds, the values of the easy level, while its
  explanation is the text of the medium level (whose values are 150 points and 45
  seconds); the assembly succeeds for every count \<open>n \<ge> 0\<close> that converts to a float,
  with \<open>n\<close> such questions.
\<close>

theorem unknown_difficulty_defaults:
  "difficulty \<notin> {''easy'', ''medium'', ''hard''} \<Longrightarrow>
     question_points (fallback_question shuffle topic difficulty quiz_type aspects i) = Some 100
   \<and> question_timeLimit (fallback_question shuffle topic difficulty quiz_type aspects i) = Some 30
   \<and> question_explanation (fallback_question shuffle topic difficulty quiz_type aspects i) =
        Some (create_detailed_explanation topic (aspects ! (i mod length aspects)) ''medium'')
   \<and> dict_get points_map ''easy'' 100 = 100 \<and> dict_get time_map ''easy'' 30 = 30
   \<and> dict_get points_map ''medium'' 100 = 150 \<and> dict_get time_map ''medium'' 30 = 45
   \<and> (0 \<le> n \<and> n < 2 ^ 1024 - 2 ^ 970 \<longrightarrow>
        (\<exists>quiz qs.
           generate_enhanced_fallback_quiz shuffle_at topic difficulty n quiz_type ctx = Inr quiz
           \<and> quiz_questions quiz = Some qs \<and> int (length qs) = n
           \<and> list_all (\<lambda>q. question_points q = Some 100 \<and> question_timeLimit q = Some 30
                            \<and> question_difficulty q = Some difficulty) qs))"
proof -
  assume "difficulty \<notin> {''easy'', ''medium'', ''hard''}"
  then have d: "difficulty \<noteq> ''easy''" "difficulty \<noteq> ''medium''" "difficulty \<noteq> ''hard''"
    by simp_all
  note u = points_for_unknown [OF d]
  have quiz: "\<exists>quiz qs.
           generate_enhanced_fallback_quiz shuffle_at topic difficulty n quiz_type ctx = Inr quiz
           \<and> quiz_questions quiz = Some qs \<and> int (length qs) = n
           \<and> list_all (\<lambda>q. question_points q = Some 100 \<and> question_timeLimit q = Some 30
                            \<and> question_difficulty q = Some difficulty) qs"
    if n: "0 \<le> n" "n < 2 ^ 1024 - 2 ^ 970"
  proof -
    have "\<bar>n\<bar> < 2 ^ 1024 - 2 ^ 970" using n by simp
    from fallback_quiz_result [OF this, of shuffle_at topic difficulty quiz_type ctx]
    obtain quiz where q: "generate_enhanced_fallback_quiz shuffle_at topic difficulty n quiz_type ctx = Inr quiz"
       "quiz_questions quiz =
           Some (map (\<lambda>i. fallback_question (shuffle_at i) topic difficulty quiz_type
                        (generate_aspects_from_topic topic n) i) (py_range n))"
      by (elim exE conjE)
    have len: "int (length (map (\<lambda>i. fallback_question (shuffle_at i) topic difficulty quiz_type
                        (generate_aspects_from_topic topic n) i) (py_range n))) = n"
      using n by (simp add: py_range_def)
    have all: "list_all (\<lambda>q. question_points q = Some 100 \<and> question_timeLimit q = Some 30
                            \<and> question_difficulty q = Some difficulty)
                 (map (\<lambda>i. fallback_question (shuffle_at i) topic difficulty quiz_type
                        (generate_aspects_from_topic topic n) i) (py_range n))"
      using fallback_questions_all [of difficulty shuffle_at topic quiz_type
          "generate_aspects_from_topic topic n" n]
      by (simp only: u)
    from q len all show ?thesis by (intro exI conjI)
  qed
  show ?thesis
    using quiz by (simp add: fallback_question_fields u points_for_known)
qed

text \<open>The difficulty \<open>expert\<close> for a question about Rome.\<close>

theorem unknown_difficulty_defaults_witness:
  "''expert'' \<notin> {''easy'', ''medium'', ''hard''}
   \<and> question_points (fallback_question rev ''Rome'' ''expert'' ''multiple-choice'' [''causes of Rome''] 0) = Some 100
   \<and> question_timeLimit (fallback_question rev ''Rome'' ''expert'' ''multiple-choice'' [''causes of Rome''] 0) = Some 30
   \<and> question_explanation (fallback_question rev ''Rome'' ''expert'' ''multiple-choice'' [''causes of Rome''] 0) =
        Some ''The correct answer relates to causes of Rome, which is a key component of Rome. This aspect is important because it connects various concepts within Rome and demonstrates practical applications.''"
proof -
  have h: "''expert'' \<notin> {''easy'', ''medium'', ''hard''}" by simp
  have e: "create_detailed_explanation ''Rome'' ''causes of Rome'' ''medium'' =
     ''The correct answer relates to causes of Rome, which is a key component of Rome. This aspect is important because it connects various concepts within Rome and demonstrates practical applications.''"
    by code_simp
  note w = unknown_difficulty_defaults [OF h, of rev "''Rome''" "''multiple-choice''" "[''causes of Rome'']" 0 0 "\<lambda>i. rev" "[]"]
  have "question_points (fallback_question rev ''Rome'' ''expert'' ''multiple-choice'' [''causes of Rome''] 0) = Some 100"
    "question_timeLimit (fallback_question rev ''Rome'' ''expert'' ''multiple-choice'' [''causes of Rome''] 0) = Some 30"
    "question_explanation (fallback_question rev ''Rome'' ''expert'' ''multiple-choice'' [''causes of Rome''] 0) =
        Some (create_detailed_explanation ''Rome'' ([''causes of Rome''] ! (0 mod length [''causes of Rome''])) ''medium'')"
    using w [THEN conjunct1] w [THEN conjunct2, THEN conjunct1]
      w [THEN conjunct2, THEN conjunct2, THEN conjunct1]
    by - assumption+
  then show ?thesis using h e by simp
qed

section \<open>The quiz enhancer\<close>

lemma enhance_difficulty_questions:
  "quiz_questions (enhance_quiz_content nc now quiz ''difficulty'') =
     map_option (\<lambda>qs. map (\<lambda>(i, question). adjust_difficulty i question) (enumerate 0 qs))
       (quiz_questions quiz)"
  by (simp add: enhance_quiz_content_def Let_def)

lemma enhance_explanations_questions:
  "quiz_questions (enhance_quiz_content nc now quiz ''explanations'') =
     map_option (map (add_explanation quiz)) (quiz_questions quiz)"
  by (simp add: enhance_quiz_content_def Let_def)

lemma enhance_keeps_totals:
  "quiz_totalPoints (enhance_quiz_content nc now quiz ''difficulty'') = quiz_totalPoints quiz"
  "quiz_totalPoints (enhance_quiz_content nc now quiz ''explanations'') = quiz_totalPoints quiz"
  "quiz_title (enhance_quiz_content nc now quiz ''explanations'') = quiz_title quiz"
  by (simp_all add: enhance_quiz_content_def Let_def)

lemma adjust_difficulty_fields:
  "question_difficulty (adjust_difficulty i q) =
     Some (if i mod 3 = 0 then ''easy'' else if i mod 3 = 1 then ''medium'' else ''hard'')"
  "question_points (adjust_difficulty i q) =
     Some (if i mod 3 = 0 then 100 else if i mod 3 = 1 then 150 else 200)"
  "question_timeLimit (adjust_difficulty i q) =
     Some (if i mod 3 = 0 then 30 else if i mod 3 = 1 then 45 else 60)"
  "adjust_difficulty i q =
     q\<lparr>question_difficulty := question_difficulty (adjust_difficulty i q),
       question_points := question_points (adjust_difficulty i q),
       question_timeLimit := question_timeLimit (adjust_difficulty i q)\<rparr>"
  by (simp_all add: adjust_difficulty_def)

lemma five_positions:
  "map (\<lambda>i. Some (if i mod 3 = 0 then ''easy'' else if i mod 3 = 1 then ''medium'' else ''hard''))
       [0..<5] = [Some ''easy'', Some ''medium'', Some ''hard'', Some ''easy'', Some ''medium'']"
  by code_simp

text \<open>
  Claim C6.  In mode \<open>difficulty\<close> the question at position \<open>i\<close> gets the difficulty,
  the points and the time limit of \<open>i mod 3\<close>: easy, 100 and 30 for 0; medium, 150 and 45
  for 1; hard, 200 and 60 for 2.  The values it had are overwritten and its other fields
  are kept; a quiz of five questions ends with the difficulties easy, medium, hard, easy,
  medium.
\<close>

theorem difficulty_mode_by_position:
  "quiz_questions quiz = Some qs \<Longrightarrow>
     (\<exists>qs'. quiz_questions (enhance_quiz_content now_comprehensive now quiz ''difficulty'') = Some qs'
        \<and> length qs' = length qs
        \<and> (\<forall>i<length qs.
              question_difficulty (qs' ! i) =
                Some (if i mod 3 = 0 then ''easy'' else if i mod 3 = 1 then ''medium'' else ''hard'')
            \<and> question_points (qs' ! i) =
                Some (if i mod 3 = 0 then 100 else if i mod 3 = 1 then 150 else 200)
            \<and> question_timeLimit (qs' ! i) =
                Some (if i mod 3 = 0 then 30 else if i mod 3 = 1 then 45 else 60)
            \<and> qs' ! i = (qs ! i)\<lparr>question_difficulty := question_difficulty (qs' ! i),
                                   question_points := question_points (qs' ! i),
                                   question_timeLimit := question_timeLimit (qs' ! i)\<rparr>)
        \<and> (length qs = 5 \<longrightarrow>
              map question_difficulty qs' =
                [Some ''easy'', Some ''medium'', Some ''hard'', Some ''easy'', Some ''medium'']))"
proof -
  assume qs: "quiz_questions quiz = Some qs"
  define qs' where "qs' = map (\<lambda>(i, question). adjust_difficulty i question) (enumerate 0 qs)"
  have res: "quiz_questions (enhance_quiz_content now_comprehensive now quiz ''difficulty'') = Some qs'"
    by (simp add: enhance_difficulty_questions qs qs'_def)
  have len: "length qs' = length qs"
    by (simp add: qs'_def)
  have nth: "qs' ! i = adjust_difficulty i (qs ! i)" if "i < length qs" for i
    using that by (simp add: qs'_def nth_enumerate_eq)
  have five: "map question_difficulty qs' =
      [Some ''easy'', Some ''medium'', Some ''hard'', Some ''easy'', Some ''medium'']"
    if l: "length qs = 5"
  proof -
    have "map question_difficulty qs' =
        map (\<lambda>i. Some (if i mod 3 = 0 then ''easy'' else if i mod 3 = 1 then ''medium'' else ''hard''))
          [0..<5]"
      by (rule nth_equalityI) (simp_all add: len l nth adjust_difficulty_fields(1))
    then show ?thesis by (simp only: five_positions)
  qed
  have pos: "question_difficulty (qs' ! i) =
                Some (if i mod 3 = 0 then ''easy'' else if i mod 3 = 1 then ''medium'' else ''hard'')
            \<and> question_points (qs' ! i) =
                Some (if i mod 3 = 0 then 100 else if i mod 3 = 1 then 150 else 200)
            \<and> question_timeLimit (qs' ! i) =
                Some (if i mod 3 = 0 then 30 else if i mod 3 = 1 then 45 else 60)
            \<and> qs' ! i = (qs ! i)\<lparr>question_difficulty := question_difficulty (qs' ! i),
                                   question_points := question_points (qs' ! i),
                                   question_timeLimit := question_timeLimit (qs' ! i)\<rparr>"
    if "i < length qs" for i
    unfolding nth [OF that]
    by (intro conjI adjust_difficulty_fields)
  have every: "\<forall>i<length qs.
              question_difficulty (qs' ! i) =
                Some (if i mod 3 = 0 then ''easy'' else if i mod 3 = 1 then ''medium'' else ''hard'')
            \<and> question_points (qs' ! i) =
                Some (if i mod 3 = 0 then 100 else if i mod 3 = 1 then 150 else 200)
            \<and> question_timeLimit (qs' ! i) =
                Some (if i mod 3 = 0 then 30 else if i mod 3 = 1 then 45 else 60)
            \<and> qs' ! i = (qs ! i)\<lparr>question_difficulty := question_difficulty (qs' ! i),
                                   question_points := question_points (qs' ! i),
                                   question_timeLimit := question_timeLimit (qs' ! i)\<rparr>"
    by (intro allI impI) (rule pos)
  have five': "length qs = 5 \<longrightarrow>
              map question_difficulty qs' =
                [Some ''easy'', Some ''medium'', Some ''hard'', Some ''easy'', Some ''medium'']"
    by (rule impI) (rule five)
  from res len every five' show ?thesis
    by (intro exI [of _ qs'] conjI)
qed

text \<open>The five hard questions of the sample quiz.\<close>

theorem difficulty_mode_by_position_witness:
  "quiz_questions sample_quiz =
     Some [sample_question None, sample_question (Some []),
           sample_question (Some ''Cells are the units of life.''),
           sample_question None, sample_question (Some ''See chapter 2.'')]
   \<and> (\<exists>qs'. quiz_questions (enhance_quiz_content ''t1'' ''t2'' sample_quiz ''difficulty'') = Some qs'
        \<and> map question_difficulty qs' =
              [Some ''easy'', Some ''medium'', Some ''hard'', Some ''easy'', Some ''medium'']
        \<and> question_points (qs' ! 4) = Some 150
        \<and> question_timeLimit (qs' ! 4) = Some 45)"
proof -
  let ?qs = "[sample_question None, sample_question (Some []),
           sample_question (Some ''Cells are the units of life.''),
           sample_question None, sample_question (Some ''See chapter 2.'')]"
  have h: "quiz_questions sample_quiz = Some ?qs"
    by (simp add: sample_quiz_def)
  from difficulty_mode_by_position [OF h, of "''t1''" "''t2''"]
  obtain qs' where q: "quiz_questions (enhance_quiz_content ''t1'' ''t2'' sample_quiz ''difficulty'') = Some qs'"
    and every: "\<forall>i<length ?qs.
              question_difficulty (qs' ! i) =
                Some (if i mod 3 = 0 then ''easy'' else if i mod 3 = 1 then ''medium'' else ''hard'')
            \<and> question_points (qs' ! i) =
                Some (if i mod 3 = 0 then 100 else if i mod 3 = 1 then 150 else 200)
            \<and> question_timeLimit (qs' ! i) =
                Some (if i mod 3 = 0 then 30 else if i mod 3 = 1 then 45 else 60)
            \<and> qs' ! i = (?qs ! i)\<lparr>question_difficulty := question_difficulty (qs' ! i),
                                   question_points := question_points (qs' ! i),
                                   question_timeLimit := question_timeLimit (qs' ! i)\<rparr>"
    and five: "length ?qs = 5 \<longrightarrow>
              map question_difficulty qs' =
                [Some ''easy'', Some ''medium'', Some ''hard'', Some ''easy'', Some ''medium'']"
    by (elim exE conjE)
  have d: "map question_difficulty qs' =
                [Some ''easy'', Some ''medium'', Some ''hard'', Some ''easy'', Some ''medium'']"
    using five by simp
  have "(4::nat) < length ?qs" by simp
  with every have "question_points (qs' ! 4) = Some (if (4::nat) mod 3 = 0 then 100 else if (4::nat) mod 3 = 1 then 150 else 200)
     \<and> question_timeLimit (qs' ! 4) = Some (if (4::nat) mod 3 = 0 then 30 else if (4::nat) mod 3 = 1 then 45 else 60)"
    by (elim allE [of _ 4] impE) (assumption, elim conjE, intro conjI, assumption+)
  then have p: "question_points (qs' ! 4) = Some 150 \<and> question_timeLimit (qs' ! 4) = Some 45"
    by simp
  from h q d p show ?thesis by (intro conjI exI [of _ qs']) simp_all
qed



lemma explanation_nonempty: "create_detailed_explanation topic aspect d \<noteq> []"
  by (simp add: create_detailed_explanation_def explanations_def dict_get_def)

lemma add_explanation_idem: "add_explanation quiz' (add_explanation quiz q) = add_explanation quiz q"
  by (simp add: add_explanation_def explanation_nonempty)

lemma add_explanation_result:
  "question_explanation (add_explanation quiz q) =
     (if question_explanation q = None \<or> question_explanation q = Some []
      then Some (create_detailed_explanation (get_or (quiz_title quiz) ''topic'') ''key concept''
                   (get_or (question_difficulty q) ''medium''))
      else question_explanation q)"
  "question_explanation (add_explanation quiz q) \<noteq> None"
  "question_explanation (add_explanation quiz q) \<noteq> Some []"
  by (auto simp: add_explanation_def explanation_nonempty)

text \<open>
  Claim C9.  Applying mode \<open>explanations\<close> twice leaves the questions, and so their
  explanations, as one application does: an explanation is synthesized exactly for the
  questions whose explanation is absent or empty, a synthesized explanation is not
  empty, and so after one application no explanation is absent or empty.
\<close>

theorem explanations_mode_idempotent:
  "quiz_questions
      (enhance_quiz_content c2 n2 (enhance_quiz_content c1 n1 quiz ''explanations'') ''explanations'')
     = quiz_questions (enhance_quiz_content c1 n1 quiz ''explanations'')
   \<and> create_detailed_explanation topic aspect d \<noteq> []
   \<and> (\<forall>qs. quiz_questions quiz = Some qs \<longrightarrow>
        (\<exists>qs'. quiz_questions (enhance_quiz_content c1 n1 quiz ''explanations'') = Some qs'
           \<and> length qs' = length qs
           \<and> (\<forall>i<length qs.
                 question_explanation (qs' ! i) =
                   (if question_explanation (qs ! i) = None \<or> question_explanation (qs ! i) = Some []
                    then Some (create_detailed_explanation (get_or (quiz_title quiz) ''topic'')
                                 ''key concept'' (get_or (question_difficulty (qs ! i)) ''medium''))
                    else question_explanation (qs ! i))
               \<and> question_explanation (qs' ! i) \<noteq> None
               \<and> question_explanation (qs' ! i) \<noteq> Some [])))"
proof (intro conjI allI impI)
  show "quiz_questions
      (enhance_quiz_content c2 n2 (enhance_quiz_content c1 n1 quiz ''explanations'') ''explanations'')
     = quiz_questions (enhance_quiz_content c1 n1 quiz ''explanations'')"
    by (simp only: enhance_explanations_questions option.map_comp comp_def list.map_comp
          add_explanation_idem)
next
  show "create_detailed_explanation topic aspect d \<noteq> []"
    by (rule explanation_nonempty)
next
  fix qs assume qs: "quiz_questions quiz = Some qs"
  have res: "quiz_questions (enhance_quiz_content c1 n1 quiz ''explanations'')
      = Some (map (add_explanation quiz) qs)"
    by (simp add: enhance_explanations_questions qs)
  have each: "\<forall>i<length qs.
                 question_explanation (map (add_explanation quiz) qs ! i) =
                   (if question_explanation (qs ! i) = None \<or> question_explanation (qs ! i) = Some []
                    then Some (create_detailed_explanation (get_or (quiz_title quiz) ''topic'')
                                 ''key concept'' (get_or (question_difficulty (qs ! i)) ''medium''))
                    else question_explanation (qs ! i))
               \<and> question_explanation (map (add_explanation quiz) qs ! i) \<noteq> None
               \<and> question_explanation (map (add_explanation quiz) qs ! i) \<noteq> Some []"
  proof (intro allI impI)
    fix i assume "i < length qs"
    then have "map (add_explanation quiz) qs ! i = add_explanation quiz (qs ! i)"
      by simp
    then show "question_explanation (map (add_explanation quiz) qs ! i) =
                   (if question_explanation (qs ! i) = None \<or> question_explanation (qs ! i) = Some []
                    then Some (create_detailed_explanation (get_or (quiz_title quiz) ''topic'')
                                 ''key concept'' (get_or (question_difficulty (qs ! i)) ''medium''))
                    else question_explanation (qs ! i))
               \<and> question_explanation (map (add_explanation quiz) qs ! i) \<noteq> None
               \<and> question_explanation (map (add_explanation quiz) qs ! i) \<noteq> Some []"
      by (simp only: add_explanation_result) (simp add: explanation_nonempty)
  qed
  have "length (map (add_explanation quiz) qs) = length qs" by simp
  with res each show "\<exists>qs'. quiz_questions (enhance_quiz_content c1 n1 quiz ''explanations'') = Some qs'
           \<and> length qs' = length qs
           \<and> (\<forall>i<length qs.
                 question_explanation (qs' ! i) =
                   (if question_explanation (qs ! i) = None \<or> question_explanation (qs ! i) = Some []
                    then Some (create_detailed_explanation (get_or (quiz_title quiz) ''topic'')
                                 ''key concept'' (get_or (question_difficulty (qs ! i)) ''medium''))
                    else question_explanation (qs ! i))
               \<and> question_explanation (qs' ! i) \<noteq> None
               \<and> question_explanation (qs' ! i) \<noteq> Some [])"
    by (intro exI [of _ "map (add_explanation quiz) qs"] conjI)
qed

text \<open>
  On the sample quiz the three missing or empty explanations are synthesized and the two
  given ones are kept.
\<close>

theorem explanations_mode_idempotent_witness:
  "quiz_questions
      (enhance_quiz_content ''t3'' ''t4'' (enhance_quiz_content ''t1'' ''t2'' sample_quiz ''explanations'')
         ''explanations'')
     = quiz_questions (enhance_quiz_content ''t1'' ''t2'' sample_quiz ''explanations'')
   \<and> map question_explanation
        (get_or (quiz_questions (enhance_quiz_content ''t1'' ''t2'' sample_quiz ''explanations'')) []) =
       [Some (create_detailed_explanation ''Biology Quiz'' ''key concept'' ''hard''),
        Some (create_detailed_explanation ''Biology Quiz'' ''key concept'' ''hard''),
        Some ''Cells are the units of life.'',
        Some (create_detailed_explanation ''Biology Quiz'' ''key concept'' ''hard''),
        Some ''See chapter 2.'']"
proof -
  note w = explanations_mode_idempotent [of "''t3''" "''t4''" "''t1''" "''t2''" sample_quiz "[]" "[]" "[]"]
  have a: "quiz_questions
      (enhance_quiz_content ''t3'' ''t4'' (enhance_quiz_content ''t1'' ''t2'' sample_quiz ''explanations'')
         ''explanations'')
     = quiz_questions (enhance_quiz_content ''t1'' ''t2'' sample_quiz ''explanations'')"
    by (rule w [THEN conjunct1])
  have b: "map question_explanation
        (get_or (quiz_questions (enhance_quiz_content ''t1'' ''t2'' sample_quiz ''explanations'')) []) =
       [Some (create_detailed_explanation ''Biology Quiz'' ''key concept'' ''hard''),
        Some (create_detailed_explanation ''Biology Quiz'' ''key concept'' ''hard''),
        Some ''Cells are the units of life.'',
        Some (create_detailed_explanation ''Biology Quiz'' ''key concept'' ''hard''),
        Some ''See chapter 2.'']"
    by (simp add: enhance_explanations_questions sample_quiz_def sample_question_def get_or_def
          add_explanation_def)
  from a b show ?thesis by (rule conjI)
qed


lemma points_sum_fallback:
  "points_sum (map (\<lambda>i. fallback_question (sh i) topic d qt aspects i) xs)
     = int (length xs) * dict_get points_map d 100"
  by (induction xs) (simp_all add: points_sum_def fallback_question_fields get_or_def algebra_simps)

text \<open>
  The assembler establishes the invariant: for a count \<open>n \<ge> 0\<close> that converts to a
  float, \<open>totalPoints\<close> of the assembled quiz is the sum of the points of its questions.
\<close>

lemma fallback_invariant:
  assumes "0 \<le> n" "n < 2 ^ 1024 - 2 ^ 970"
  shows "\<exists>quiz. generate_enhanced_fallback_quiz sh topic d n qt ctx = Inr quiz
            \<and> total_points_invariant quiz"
proof -
  have "\<bar>n\<bar> < 2 ^ 1024 - 2 ^ 970" using assms by simp
  from fallback_quiz_result [OF this, of sh topic d qt ctx]
  obtain quiz where q: "generate_enhanced_fallback_quiz sh topic d n qt ctx = Inr quiz"
     "quiz_questions quiz =
         Some (map (\<lambda>i. fallback_question (sh i) topic d qt (generate_aspects_from_topic topic n) i)
                   (py_range n))"
     "quiz_totalPoints quiz = Some (n * dict_get points_map d 100)"
    by (elim exE conjE)
  have "total_points_invariant quiz"
    using assms(1)
    by (simp add: total_points_invariant_def q get_or_def points_sum_fallback list_all_iff
          fallback_question_fields py_range_def)
  with q(1) show ?thesis by (intro exI conjI)
qed

text \<open>Four medium questions about Rome.\<close>

theorem fallback_invariant_witness:
  "(0::int) \<le> 4 \<and> (4::int) < 2 ^ 1024 - 2 ^ 970
   \<and> (\<exists>quiz. generate_enhanced_fallback_quiz (\<lambda>i. rev) ''Rome'' ''medium'' 4 ''multiple-choice'' []
                = Inr quiz
            \<and> total_points_invariant quiz)"
proof -
  have lo: "(0::int) \<le> 4" by simp
  have hi: "(4::int) < 2 ^ 1024 - 2 ^ 970" by simp
  from fallback_invariant [OF lo hi, of "\<lambda>i. rev" "''Rome''" "''medium''" "''multiple-choice''" "[]"]
    lo hi
  show ?thesis by (intro conjI)
qed

lemma add_explanation_points: "question_points (add_explanation quiz q) = question_points q"
  by (simp add: add_explanation_def)

lemma enhance_question_points: "question_points (enhance_question e i q) = question_points q"
  by (simp add: enhance_question_def Let_def split: option.splits)

lemma points_sum_map:
  "(\<And>q. question_points (f q) = question_points q) \<Longrightarrow> points_sum (map f qs) = points_sum qs"
  by (simp add: points_sum_def comp_def)

lemma points_sum_enumerate:
  "(\<And>i q. question_points (f i q) = question_points q) \<Longrightarrow>
     points_sum (map (\<lambda>(i, q). f i q) (enumerate k qs)) = points_sum qs"
  by (induction qs arbitrary: k) (simp_all add: points_sum_def)

lemma all_points_enumerate:
  "(\<And>i q. question_points (f i q) = question_points q) \<Longrightarrow>
     list_all (\<lambda>q. question_points q \<noteq> None) (map (\<lambda>(i, q). f i q) (enumerate k qs))
       = list_all (\<lambda>q. question_points q \<noteq> None) qs"
  by (induction qs arbitrary: k) simp_all

lemma comprehensive_fields:
  "quiz_totalPoints (enhance_quiz_comprehensively now quiz) = quiz_totalPoints quiz"
  "quiz_questions (enhance_quiz_comprehensively now quiz) =
     map_option (\<lambda>qs. map (\<lambda>(i, question). enhance_question (enhance_quiz_header quiz) i question)
                      (enumerate 0 qs))
       (quiz_questions quiz)"
  by (simp_all add: enhance_quiz_comprehensively_def enhance_quiz_header_def Let_def)

lemma enhance_mode_fields:
  "quiz_totalPoints (enhance_quiz_content nc now quiz mode) = quiz_totalPoints quiz"
  by (simp add: enhance_quiz_content_def Let_def comprehensive_fields)

text \<open>
  Every mode but \<open>difficulty\<close> (the modes \<open>explanations\<close> and \<open>comprehensive\<close>, and a
  mode the enhancer does not know) keeps the invariant: it changes neither
  \<open>totalPoints\<close> nor the points of a question.
\<close>

lemma other_modes_keep_invariant:
  assumes inv: "total_points_invariant quiz" and mode: "mode \<noteq> ''difficulty''"
  shows "total_points_invariant (enhance_quiz_content nc now quiz mode)"
proof (cases "quiz_questions quiz")
  case None
  then have "quiz_questions (enhance_quiz_content nc now quiz mode) = None"
    by (simp add: enhance_quiz_content_def Let_def comprehensive_fields)
  with inv None show ?thesis
    by (simp add: total_points_invariant_def enhance_mode_fields)
next
  case (Some qs)
  have "\<exists>qs'. quiz_questions (enhance_quiz_content nc now quiz mode) = Some qs'
           \<and> points_sum qs' = points_sum qs
           \<and> list_all (\<lambda>q. question_points q \<noteq> None) qs' = list_all (\<lambda>q. question_points q \<noteq> None) qs"
  proof (cases "mode = ''explanations''")
    case True
    then show ?thesis
      by (simp add: enhance_explanations_questions Some points_sum_map add_explanation_points
            list_all_iff)
  next
    case ne: False
    show ?thesis
    proof (cases "mode = ''comprehensive''")
      case True
      let ?qs' = "map (\<lambda>(i, question). enhance_question (enhance_quiz_header quiz) i question)
                      (enumerate 0 qs)"
      have r: "quiz_questions (enhance_quiz_content nc now quiz mode) = Some ?qs'"
        using True by (simp add: enhance_quiz_content_def Let_def comprehensive_fields Some)
      have ps: "points_sum ?qs' = points_sum qs"
        by (rule points_sum_enumerate) (rule enhance_question_points)
      have pa: "list_all (\<lambda>q. question_points q \<noteq> None) ?qs'
                  = list_all (\<lambda>q. question_points q \<noteq> None) qs"
        by (rule all_points_enumerate) (rule enhance_question_points)
      from r ps pa show ?thesis by (intro exI [of _ ?qs'] conjI)
    next
      case False
      with ne mode show ?thesis
        by (simp add: enhance_quiz_content_def Let_def Some)
    qed
  qed
  then obtain qs' where "quiz_questions (enhance_quiz_content nc now quiz mode) = Some qs'"
     "points_sum qs' = points_sum qs"
     "list_all (\<lambda>q. question_points q \<noteq> None) qs' = list_all (\<lambda>q. question_points q \<noteq> None) qs"
    by (elim exE conjE)
  with inv Some show ?thesis
    by (simp add: total_points_invariant_def enhance_mode_fields get_or_def)
qed

text \<open>The sample quiz, five questions of 200 points and a total of 1000, in mode \<open>comprehensive\<close>.\<close>

theorem other_modes_keep_invariant_witness:
  "total_points_invariant sample_quiz \<and> ''comprehensive'' \<noteq> ''difficulty''
   \<and> total_points_invariant (enhance_quiz_content ''t1'' ''t2'' sample_quiz ''comprehensive'')"
proof -
  have inv: "total_points_invariant sample_quiz"
    by (simp add: total_points_invariant_def sample_quiz_def sample_question_def get_or_def
          points_sum_def)
  have ne: "''comprehensive'' \<noteq> ''difficulty''" by simp
  from other_modes_keep_invariant [OF inv ne, of "''t1''" "''t2''"] inv ne
  show ?thesis by (intro conjI)
qed

lemma three_positions:
  "map (\<lambda>i. Some (if i mod 3 = 0 then 100 else if i mod 3 = 1 then 150 else (200::int)))
       [0..<3] = [Some 100, Some 150, Some 200]"
  by code_simp

text \<open>
  Claim C5 fails in mode \<open>difficulty\<close>.  The quiz assembled for \<open>Photosynthesis\<close>, easy,
  three questions satisfies the invariant; mode \<open>difficulty\<close> sets the points of its
  questions to 100, 150 and 200, which sum to 450, and leaves \<open>totalPoints\<close> at 300.
\<close>

theorem difficulty_mode_breaks_total_points:
  "\<exists>quiz. generate_enhanced_fallback_quiz shuffle_at ''Photosynthesis'' ''easy'' 3 ''multiple-choice'' []
              = Inr quiz
     \<and> total_points_invariant quiz
     \<and> quiz_totalPoints (enhance_quiz_content now_comprehensive now quiz ''difficulty'') = Some 300
     \<and> map question_points
          (get_or (quiz_questions (enhance_quiz_content now_comprehensive now quiz ''difficulty'')) [])
         = [Some 100, Some 150, Some 200]
     \<and> points_sum
          (get_or (quiz_questions (enhance_quiz_content now_comprehensive now quiz ''difficulty'')) [])
         = 450
     \<and> \<not> total_points_invariant (enhance_quiz_content now_comprehensive now quiz ''difficulty'')"
proof -
  have "\<bar>3::int\<bar> < 2 ^ 1024 - 2 ^ 970" by simp
  from fallback_quiz_result [OF this, of shuffle_at "''Photosynthesis''" "''easy''" "''multiple-choice''" "[]"]
  obtain quiz where q: "generate_enhanced_fallback_quiz shuffle_at ''Photosynthesis'' ''easy'' 3 ''multiple-choice'' [] = Inr quiz"
     "quiz_questions quiz =
         Some (map (\<lambda>i. fallback_question (shuffle_at i) ''Photosynthesis'' ''easy'' ''multiple-choice''
                      (generate_aspects_from_topic ''Photosynthesis'' 3) i) (py_range 3))"
     "quiz_totalPoints quiz = Some (3 * dict_get points_map ''easy'' 100)"
    by (elim exE conjE)
  let ?qs = "map (\<lambda>i. fallback_question (shuffle_at i) ''Photosynthesis'' ''easy'' ''multiple-choice''
                      (generate_aspects_from_topic ''Photosynthesis'' 3) i) (py_range 3)"
  let ?e = "enhance_quiz_content now_comprehensive now quiz ''difficulty''"
  let ?qs' = "map (\<lambda>(i, question). adjust_difficulty i question) (enumerate 0 ?qs)"
  have inv: "total_points_invariant quiz"
    by (simp add: total_points_invariant_def q get_or_def points_sum_fallback list_all_iff
          fallback_question_fields py_range_def)
  have tp: "quiz_totalPoints ?e = Some 300"
    by (simp add: enhance_keeps_totals q points_for_known)
  have qe: "get_or (quiz_questions ?e) [] = ?qs'"
    by (simp add: enhance_difficulty_questions q(2) get_or_def)
  have len: "length ?qs' = 3" by (simp add: py_range_def)
  have "map question_points ?qs' =
      map (\<lambda>i. Some (if i mod 3 = 0 then 100 else if i mod 3 = 1 then 150 else (200::int))) [0..<3]"
    by (rule nth_equalityI)
       (simp_all add: py_range_def nth_enumerate_eq adjust_difficulty_fields(2) del: upt_Suc)
  then have pts: "map question_points ?qs' = [Some 100, Some 150, Some 200]"
    by (simp only: three_positions)
  have "points_sum ?qs' = sum_list (map (\<lambda>p. get_or p 0) (map question_points ?qs'))"
    by (simp only: points_sum_def list.map_comp comp_def)
  then have sum: "points_sum ?qs' = 450"
    by (simp only: pts) (simp add: get_or_def)
  have broken: "\<not> total_points_invariant ?e"
    by (simp add: total_points_invariant_def Let_def qe sum tp)
  have pts': "map question_points (get_or (quiz_questions ?e) []) = [Some 100, Some 150, Some 200]"
    using pts by (simp only: qe)
  have sum': "points_sum (get_or (quiz_questions ?e) []) = 450"
    using sum by (simp only: qe)
  from q(1) inv tp pts' sum' broken show ?thesis
    by (intro exI [of _ quiz] conjI)
qed

section \<open>The text analyzer\<close>

text \<open>
  Claim C7, as the code has it.  The analysis of the empty text with no pages returns
  (no operation of it can raise): its page count, its word count and both averages are
  zero, its complexity is low, its technical level is \<open>Non-Technical\<close> and it has no
  potential topics.  Its sentence count is 1, not 0: \<open>re.split\<close> returns the one empty
  piece for the empty text, so the list of sentences is never empty.
\<close>

theorem analyze_empty_text:
  "statistics (analyze_pdf_content set_order [] []) =
     \<lparr> totalPages = 0, totalWords = 0, totalSentences = 1,
       averageWordLength = 0, averageSentenceLength = 0 \<rparr>
   \<and> complexity (contentAnalysis (analyze_pdf_content set_order [] [])) = ''low''
   \<and> technicalLevel (contentAnalysis (analyze_pdf_content set_order [] [])) = ''Non-Technical''
   \<and> potentialQuizTopics (analyze_pdf_content set_order [] []) = []
   \<and> split_sentences [] = [[]]"
proof -
  have w: "py_split [] = []" by (simp add: py_split_def)
  have s: "split_sentences [] = [[]]" by (simp add: split_sentences_def)
  have z: "py_round2 0 = 0" "int_true_div 0 1 = 0"
    by (simp_all add: py_round2_def int_true_div_def round_double_def round_half_even_def)
  have t: "estimate_technical_level [] = ''Non-Technical''"
    by code_simp
  have p: "extract_potential_topics [] = []"
    by code_simp
  show ?thesis
    by (simp add: analyze_pdf_content_def Let_def w s z t p)
qed

lemma map_fst_dict_set:
  "map fst (dict_set k v d) = (if k \<in> set (map fst d) then map fst d else map fst d @ [k])"
  by (induction d) auto

lemma map_of_dict_set: "map_of (dict_set k v d) = (map_of d)(k \<mapsto> v)"
  by (induction d) (auto simp: fun_eq_iff)

lemma dict_get_dict_set:
  "dict_get (dict_set k v d) w dflt = (if w = k then v else dict_get d w dflt)"
  by (simp add: dict_get_def map_of_dict_set)

lemma count_words_fold:
  assumes "distinct (map fst d)"
  shows "distinct (map fst (fold (\<lambda>word word_counts.
             if word \<in> set stop then word_counts else count_word word word_counts) ws d))
       \<and> set (map fst (fold (\<lambda>word word_counts.
             if word \<in> set stop then word_counts else count_word word word_counts) ws d))
           = set (map fst d) \<union> set (filter (\<lambda>w. w \<notin> set stop) ws)
       \<and> (\<forall>w. dict_get (fold (\<lambda>word word_counts.
             if word \<in> set stop then word_counts else count_word word word_counts) ws d) w 0
            = dict_get d w 0 + count_list (filter (\<lambda>w. w \<notin> set stop) ws) w)"
  using assms
proof (induction ws arbitrary: d)
  case Nil
  then show ?case by simp
next
  case (Cons x xs)
  show ?case
  proof (cases "x \<in> set stop")
    case True
    with Cons.IH [OF Cons.prems] show ?thesis by simp
  next
    case False
    have d': "distinct (map fst (count_word x d))"
      using Cons.prems by (simp add: count_word_def map_fst_dict_set)
    have "set (map fst (count_word x d)) = insert x (set (map fst d))"
      by (auto simp: count_word_def map_fst_dict_set)
    then have keys: "fst ` set (count_word x d) = insert x (fst ` set d)"
      by simp
    have get: "dict_get (count_word x d) w 0 = dict_get d w 0 + (if w = x then 1 else 0)" for w
      by (simp add: count_word_def dict_get_dict_set)
    from Cons.IH [OF d'] False show ?thesis
      by (auto simp: keys get)
  qed
qed

lemma count_list_filter:
  "count_list (filter P ws) w = (if P w then count_list ws w else 0)"
  by (induction ws) auto

lemma dict_get_member:
  "distinct (map fst d) \<Longrightarrow> (k, v) \<in> set d \<Longrightarrow> dict_get d k dflt = v"
  by (simp add: dict_get_def)

lemma count_words_props:
  "distinct (map fst (count_words stop ws))"
  "set (map fst (count_words stop ws)) = set (filter (\<lambda>w. w \<notin> set stop) ws)"
  "p \<in> set (count_words stop ws) \<Longrightarrow> snd p = count_list ws (fst p)"
proof -
  note f = count_words_fold [of "[]" stop ws, simplified]
  show d: "distinct (map fst (count_words stop ws))"
    using f by (simp add: count_words_def)
  show s: "set (map fst (count_words stop ws)) = set (filter (\<lambda>w. w \<notin> set stop) ws)"
    using f by (simp add: count_words_def)
  assume p: "p \<in> set (count_words stop ws)"
  then have "fst p \<in> set (map fst (count_words stop ws))" by simp
  then have ns: "fst p \<notin> set stop" unfolding s by simp
  have "(fst p, snd p) \<in> set (count_words stop ws)" using p by simp
  from dict_get_member [OF d this, of 0]
  have "snd p = dict_get (count_words stop ws) (fst p) 0" by simp
  also have "\<dots> = count_list (filter (\<lambda>w. w \<notin> set stop) ws) (fst p)"
    using f by (simp add: count_words_def dict_get_def)
  also have "\<dots> = count_list ws (fst p)"
    using ns by (simp add: count_list_filter)
  finally show "snd p = count_list ws (fst p)" .
qed

lemma sorted_by_count_reverse_props:
  "mset (sorted_by_count_reverse items) = mset items"
  "sorted_wrt (\<lambda>a b. snd b \<le> snd a) (sorted_by_count_reverse items)"
proof -
  show "mset (sorted_by_count_reverse items) = mset items"
    by (simp add: sorted_by_count_reverse_def)
  have "sorted (map snd (sort_key snd (rev items)))"
    by (rule sorted_sort_key)
  then have "sorted_wrt (\<lambda>a b. snd a \<le> snd b) (sort_key snd (rev items))"
    by (simp add: sorted_map)
  then show "sorted_wrt (\<lambda>a b. snd b \<le> snd a) (sorted_by_count_reverse items)"
    by (simp add: sorted_by_count_reverse_def sorted_wrt_rev)
qed

text \<open>The ranked words: every candidate once, by descending frequency.\<close>

lemma ranking_props:
  fixes stop ws
  defines "L \<equiv> map fst (sorted_by_count_reverse (count_words stop ws))"
  shows "distinct L"
    and "set L = set (filter (\<lambda>w. w \<notin> set stop) ws)"
    and "sorted_wrt (\<lambda>a b. count_list ws b \<le> count_list ws a) L"
proof -
  let ?S = "sorted_by_count_reverse (count_words stop ws)"
  have m: "mset ?S = mset (count_words stop ws)"
    by (rule sorted_by_count_reverse_props)
  then have mm: "mset (map fst ?S) = mset (map fst (count_words stop ws))"
    by simp
  show "distinct L"
    unfolding L_def using mm count_words_props(1) [of stop ws]
    by (metis mset_eq_imp_distinct_iff)
  show "set L = set (filter (\<lambda>w. w \<notin> set stop) ws)"
    unfolding L_def using mm count_words_props(2) [of stop ws]
    by (metis mset_eq_setD)
  have snd: "snd p = count_list ws (fst p)" if "p \<in> set ?S" for p
  proof -
    have "set ?S = set (count_words stop ws)" using m by (rule mset_eq_setD)
    with that show ?thesis by (simp add: count_words_props(3))
  qed
  have "sorted_wrt (\<lambda>a b. snd b \<le> snd a) ?S"
    by (rule sorted_by_count_reverse_props)
  then have "sorted_wrt (\<lambda>a b. count_list ws (fst b) \<le> count_list ws (fst a)) ?S"
    by (rule sorted_wrt_mono_rel [rotated]) (simp add: snd)
  then show "sorted_wrt (\<lambda>a b. count_list ws b \<le> count_list ws a) L"
    by (simp add: L_def sorted_wrt_map)
qed

lemma take_is_top:
  assumes d: "distinct L" and s: "set L = set cs"
    and o: "sorted_wrt (\<lambda>a b. f b \<le> f a) L"
  shows "distinct (take k L)
       \<and> list_all (\<lambda>w. w \<in> set cs) (take k L)
       \<and> length (take k L) = min k (length (remdups cs))
       \<and> sorted_wrt (\<lambda>a b. f b \<le> f a) (take k L)
       \<and> list_all (\<lambda>w. w \<in> set (take k L) \<or> list_all (\<lambda>v. f w \<le> f v) (take k L)) cs"
proof (intro conjI)
  show "distinct (take k L)" using d by simp
  show "list_all (\<lambda>w. w \<in> set cs) (take k L)"
    using s set_take_subset [of k L] by (auto simp: list_all_iff)
  have "length L = card (set cs)"
    using d s by (metis distinct_card)
  then have "length L = length (remdups cs)"
    by (simp add: length_remdups_card_conv)
  then show "length (take k L) = min k (length (remdups cs))"
    by (simp add: min.commute)
  show "sorted_wrt (\<lambda>a b. f b \<le> f a) (take k L)"
    using o by (rule sorted_wrt_take)
  have "sorted_wrt (\<lambda>a b. f b \<le> f a) (take k L @ drop k L)"
    using o by simp
  then have cross: "\<forall>v\<in>set (take k L). \<forall>w\<in>set (drop k L). f w \<le> f v"
    by (simp only: sorted_wrt_append) blast
  show "list_all (\<lambda>w. w \<in> set (take k L) \<or> list_all (\<lambda>v. f w \<le> f v) (take k L)) cs"
    unfolding list_all_iff
  proof (intro ballI)
    fix w assume "w \<in> set cs"
    then have "w \<in> set (take k L @ drop k L)" using s by simp
    then have "w \<in> set (take k L) \<or> w \<in> set (drop k L)" by (simp only: set_append Un_iff)
    then show "w \<in> set (take k L) \<or> (\<forall>v\<in>set (take k L). f w \<le> f v)"
      using cross by blast
  qed
qed

lemma extract_potential_topics_eq:
  "extract_potential_topics text =
     take 10 (map fst (sorted_by_count_reverse (count_words topic_stop_words (findall_capitalized text))))"
  by (simp add: extract_potential_topics_def Let_def take_map)

text \<open>
  Claim C8, amended.  For every text the potential topics of the analysis are the top
  five, not the top ten: distinct capitalized words of four or more letters outside the
  stop list, five of them or all where there are fewer, in descending order of
  frequency, none of the words left out being more frequent than a listed one.  They are
  the first five of the list of \<open>extract_potential_topics\<close>, which is the top ten.
\<close>

theorem potential_topics_top_five:
  "is_top_topics 5 text (potentialQuizTopics (analyze_pdf_content set_order text page_texts))
   \<and> potentialQuizTopics (analyze_pdf_content set_order text page_texts)
       = take 5 (extract_potential_topics text)
   \<and> is_top_topics 10 text (extract_potential_topics text)"
proof -
  let ?ws = "findall_capitalized text"
  let ?L = "map fst (sorted_by_count_reverse (count_words topic_stop_words ?ws))"
  note r = ranking_props [where stop = topic_stop_words and ws = ?ws]
  have s: "set ?L = set (topic_candidates text)"
    using r(2) by (simp only: topic_candidates_def)
  have o: "sorted_wrt (\<lambda>a b. frequency text b \<le> frequency text a) ?L"
    using r(3) by (simp only: frequency_def)
  have field: "potentialQuizTopics (analyze_pdf_content set_order text page_texts)
       = take 5 (extract_potential_topics text)"
    by (simp add: analyze_pdf_content_def Let_def)
  have five: "take 5 (extract_potential_topics text) = take 5 ?L"
    by (simp add: extract_potential_topics_eq)
  have t5: "is_top_topics 5 text (take 5 ?L)"
    unfolding is_top_topics_def by (rule take_is_top [OF r(1) s o])
  have t10: "is_top_topics 10 text (take 10 ?L)"
    unfolding is_top_topics_def by (rule take_is_top [OF r(1) s o])
  have a: "is_top_topics 5 text (potentialQuizTopics (analyze_pdf_content set_order text page_texts))"
    using t5 by (simp only: field five)
  have b: "is_top_topics 10 text (extract_potential_topics text)"
    using t10 by (simp only: extract_potential_topics_eq)
  from a field b show ?thesis by (intro conjI)
qed

text \<open>Three planets, by frequency; the stop word \<open>This\<close> is left out.\<close>

theorem potential_topics_top_five_witness:
  "potentialQuizTopics
      (analyze_pdf_content rev ''Earth and Mars. Venus! This is Mars, not Venus; Venus is hot.'' []) =
     [''Venus'', ''Mars'', ''Earth'']
   \<and> is_top_topics 5 ''Earth and Mars. Venus! This is Mars, not Venus; Venus is hot.''
        [''Venus'', ''Mars'', ''Earth'']"
proof -
  have e: "potentialQuizTopics
      (analyze_pdf_content rev ''Earth and Mars. Venus! This is Mars, not Venus; Venus is hot.'' []) =
     [''Venus'', ''Mars'', ''Earth'']"
    by code_simp
  from potential_topics_top_five [of "''Earth and Mars. Venus! This is Mars, not Venus; Venus is hot.''" rev "[]",
      THEN conjunct1]
  have "is_top_topics 5 ''Earth and Mars. Venus! This is Mars, not Venus; Venus is hot.''
        [''Venus'', ''Mars'', ''Earth'']"
    by (simp only: e)
  with e show ?thesis by (rule conjI)
qed



lemma six_words_five_topics:
  "potentialQuizTopics (analyze_pdf_content rev ''Alpha Bravo Charlie Delta Hotel India'' []) =
     [''Alpha'', ''Bravo'', ''Charlie'', ''Delta'', ''Hotel'']"
  "topic_candidates ''Alpha Bravo Charlie Delta Hotel India'' =
     [''Alpha'', ''Bravo'', ''Charlie'', ''Delta'', ''Hotel'', ''India'']"
  by code_simp+

text \<open>
  Claim C8 as stated fails: a text with six candidate words has five potential topics,
  and the sixth, which a top ten would hold, is missing.
\<close>

theorem potential_topics_not_top_ten:
  "\<not> is_top_topics 10 ''Alpha Bravo Charlie Delta Hotel India''
       (potentialQuizTopics (analyze_pdf_content rev ''Alpha Bravo Charlie Delta Hotel India'' []))"
  by (simp add: is_top_topics_def six_words_five_topics)

end
